theory Spec2Isabelle
  imports Main
begin

section \<open>JavaScript strings\<close>

text \<open>
  A string is a list of HOL characters, one character for each UTF-16 code unit below 256.
  On that range \<open>toLowerCase\<close> maps \<open>A\<close> .. \<open>Z\<close> and the capital letters
  \<open>0xC0\<close> .. \<open>0xDE\<close> (without the multiplication sign \<open>0xD7\<close>) to the
  letter 32 places further on, and the white space of \<open>trim\<close>, of \<open>\s\<close> in a regular
  expression and of \<open>split(/\s+/)\<close> is TAB, LF, VT, FF, CR, SPACE and NBSP.
\<close>

definition upper_letters :: string where
  "upper_letters = ''ABCDEFGHIJKLMNOPQRSTUVWXYZ'' @
     [CHR 0xC0, CHR 0xC1, CHR 0xC2, CHR 0xC3, CHR 0xC4, CHR 0xC5, CHR 0xC6, CHR 0xC7,
      CHR 0xC8, CHR 0xC9, CHR 0xCA, CHR 0xCB, CHR 0xCC, CHR 0xCD, CHR 0xCE, CHR 0xCF,
      CHR 0xD0, CHR 0xD1, CHR 0xD2, CHR 0xD3, CHR 0xD4, CHR 0xD5, CHR 0xD6,
      CHR 0xD8, CHR 0xD9, CHR 0xDA, CHR 0xDB, CHR 0xDC, CHR 0xDD, CHR 0xDE]"

definition lower_letters :: string where
  "lower_letters = ''abcdefghijklmnopqrstuvwxyz'' @
     [CHR 0xE0, CHR 0xE1, CHR 0xE2, CHR 0xE3, CHR 0xE4, CHR 0xE5, CHR 0xE6, CHR 0xE7,
      CHR 0xE8, CHR 0xE9, CHR 0xEA, CHR 0xEB, CHR 0xEC, CHR 0xED, CHR 0xEE, CHR 0xEF,
      CHR 0xF0, CHR 0xF1, CHR 0xF2, CHR 0xF3, CHR 0xF4, CHR 0xF5, CHR 0xF6,
      CHR 0xF8, CHR 0xF9, CHR 0xFA, CHR 0xFB, CHR 0xFC, CHR 0xFD, CHR 0xFE]"

definition lower_char :: "char \<Rightarrow> char" where
  "lower_char c = (case map_of (zip upper_letters lower_letters) c of Some l \<Rightarrow> l | None \<Rightarrow> c)"

definition toLowerCase :: "string \<Rightarrow> string" where
  "toLowerCase s = map lower_char s"

definition is_space :: "char \<Rightarrow> bool" where
  "is_space c =
     (c \<in> set [CHR 0x09, CHR 0x0A, CHR 0x0B, CHR 0x0C, CHR 0x0D, CHR '' '', CHR 0xA0])"

definition trim :: "string \<Rightarrow> string" where
  "trim s = rev (dropWhile is_space (rev (dropWhile is_space s)))"

definition startsWith :: "string \<Rightarrow> string \<Rightarrow> bool" where
  "startsWith s p = (take (length p) s = p)"

definition endsWith :: "string \<Rightarrow> string \<Rightarrow> bool" where
  "endsWith s p = (length p \<le> length s \<and> drop (length s - length p) s = p)"

text \<open>\<open>a || b\<close> on strings: the empty string is the only falsy string.\<close>

definition or_else :: "string \<Rightarrow> string \<Rightarrow> string" where
  "or_else a b = (if a = [] then b else a)"

text \<open>
  \<open>s.split(/\s+/)\<close>: the pieces between the maximal runs of white space; a string that
  starts or ends with white space has an empty first or last piece. \<open>gap\<close> says that the
  character before was white space, \<open>acc\<close> is the piece being read, reversed.
\<close>

fun split_ws_from :: "bool \<Rightarrow> string \<Rightarrow> string \<Rightarrow> string list" where
  "split_ws_from gap acc [] = [rev acc]"
| "split_ws_from gap acc (c # cs) =
     (if is_space c then (if gap then split_ws_from True [] cs
                          else rev acc # split_ws_from True [] cs)
      else split_ws_from False (c # acc) cs)"

definition split_ws :: "string \<Rightarrow> string list" where
  "split_ws s = split_ws_from False [] s"

text \<open>The decimal digits of a number, as a template literal prints \<open>Date.now()\<close>.\<close>

fun digits :: "nat \<Rightarrow> string" where
  "digits n = (if n < 10 then [''0123456789'' ! n]
               else digits (n div 10) @ [''0123456789'' ! (n mod 10)])"

declare digits.simps [simp del]

text \<open>
  \<open>encodeURIComponent\<close>: the unreserved characters stand for themselves, every other
  character is written as the percent-escaped bytes of its UTF-8 encoding (one byte below
  128, two bytes from 128 to 255).
\<close>

definition uri_unreserved :: string where
  "uri_unreserved = ''ABCDEFGHIJKLMNOPQRSTUVWXYZabcdefghijklmnopqrstuvwxyz0123456789-_.!~*()''
     @ [CHR 0x27]"

definition hex_digit :: "nat \<Rightarrow> char" where
  "hex_digit n = ''0123456789ABCDEF'' ! n"

definition percent_byte :: "nat \<Rightarrow> string" where
  "percent_byte b = [CHR ''%'', hex_digit (b div 16), hex_digit (b mod 16)]"

definition encode_char :: "char \<Rightarrow> string" where
  "encode_char c =
     (if c \<in> set uri_unreserved then [c]
      else if (of_char c :: nat) < 128 then percent_byte (of_char c)
      else percent_byte (192 + of_char c div 64) @ percent_byte (128 + of_char c mod 64))"

definition encodeURIComponent :: "string \<Rightarrow> string" where
  "encodeURIComponent s = concat (map encode_char s)"

section \<open>Regular expressions\<close>

text \<open>
  The one non-trivial regular expression of the program, \<open>/^[^@\s]+@[^@\s]+\.[^@\s]+$/\<close>,
  is a sequence of atoms between \<open>^\<close> and \<open>$\<close>: a single character, or a character class
  repeated once or more. \<open>rx_test\<close> is \<open>RegExp.prototype.test\<close> for such an expression:
  the whole string has to be matched, and a repetition may stop wherever the rest matches.
\<close>

datatype rx_atom = Lit char | Plus "char \<Rightarrow> bool"

fun rx_test :: "rx_atom list \<Rightarrow> string \<Rightarrow> bool" where
  "rx_test [] s = (s = [])"
| "rx_test (Lit a # r) [] = False"
| "rx_test (Lit a # r) (c # cs) = (c = a \<and> rx_test r cs)"
| "rx_test (Plus p # r) [] = False"
| "rx_test (Plus p # r) (c # cs) = (p c \<and> (rx_test (Plus p # r) cs \<or> rx_test r cs))"

definition not_at_or_space :: "char \<Rightarrow> bool" where
  "not_at_or_space c = (c \<noteq> CHR ''@'' \<and> \<not> is_space c)"

definition emailRegex :: "rx_atom list" where
  "emailRegex = [Plus not_at_or_space, Lit (CHR ''@''), Plus not_at_or_space, Lit (CHR ''.''),
                 Plus not_at_or_space]"

section \<open>Paths (POSIX)\<close>

text \<open>
  The functions of Node's \<open>path\<close> module that the program calls, in their POSIX form:
  a path is absolute when it starts with a slash; \<open>join\<close> puts a slash between its non-empty
  arguments and normalises the result, which drops empty and \<open>.\<close> segments and resolves
  \<open>..\<close> against the segment before it.
\<close>

definition isAbsolute :: "string \<Rightarrow> bool" where
  "isAbsolute p = (case p of [] \<Rightarrow> False | c # _ \<Rightarrow> c = CHR ''/'')"

fun splitOn :: "char \<Rightarrow> string \<Rightarrow> string list" where
  "splitOn d [] = [[]]"
| "splitOn d (c # cs) =
     (if c = d then [] # splitOn d cs
      else (case splitOn d cs of [] \<Rightarrow> [[c]] | w # ws \<Rightarrow> (c # w) # ws))"

fun joinWith :: "string \<Rightarrow> string list \<Rightarrow> string" where
  "joinWith sep [] = []"
| "joinWith sep [x] = x"
| "joinWith sep (x # y # ys) = x @ sep @ joinWith sep (y # ys)"

text \<open>\<open>normalizeString\<close>: \<open>acc\<close> holds the segments kept so far, the last one first.\<close>

fun normalizeString :: "bool \<Rightarrow> string list \<Rightarrow> string list \<Rightarrow> string list" where
  "normalizeString allowAboveRoot [] acc = rev acc"
| "normalizeString allowAboveRoot (s # ss) acc =
     (if s = [] \<or> s = ''.'' then normalizeString allowAboveRoot ss acc
      else if s = ''..'' then
        (case acc of
           [] \<Rightarrow> normalizeString allowAboveRoot ss (if allowAboveRoot then [''..''] else [])
         | t # ts \<Rightarrow>
             if t = ''..'' then
               normalizeString allowAboveRoot ss (if allowAboveRoot then ''..'' # acc else acc)
             else normalizeString allowAboveRoot ss ts)
      else normalizeString allowAboveRoot ss (s # acc))"

definition normalize :: "string \<Rightarrow> string" where
  "normalize p =
     (if p = [] then ''.''
      else let isAbs = isAbsolute p;
               trailing = (last p = CHR ''/'');
               body = joinWith ''/'' (normalizeString (\<not> isAbs) (splitOn (CHR ''/'') p) [])
           in if body = [] then (if isAbs then ''/'' else if trailing then ''./'' else ''.'')
              else (if isAbs then ''/'' else []) @ body @ (if trailing then ''/'' else []))"

definition path_join :: "string list \<Rightarrow> string" where
  "path_join args =
     (let joined = joinWith ''/'' (filter (\<lambda>a. a \<noteq> []) args)
      in if joined = [] then ''.'' else normalize joined)"

definition basename :: "string \<Rightarrow> string" where
  "basename p =
     rev (takeWhile (\<lambda>c. c \<noteq> CHR ''/'') (dropWhile (\<lambda>c. c = CHR ''/'') (rev p)))"

text \<open>
  \<open>extname\<close>: from the last dot of the base name on; empty when the base name has no dot,
  starts with its only dot, or is \<open>..\<close>.
\<close>

definition extname :: "string \<Rightarrow> string" where
  "extname p =
     (let b = basename p;
          ext_rev = takeWhile (\<lambda>c. c \<noteq> CHR ''.'') (rev b);
          pre = take (length b - length ext_rev - 1) b
      in if CHR ''.'' \<notin> set b \<or> pre = [] \<or> b = ''..'' then []
         else CHR ''.'' # rev ext_rev)"

section \<open>The settings table and its accessors\<close>

text \<open>
  \<open>CREATE TABLE settings (key TEXT PRIMARY KEY, value TEXT NOT NULL)\<close>: the table is a list
  of rows. A plain \<open>INSERT\<close> of a key that is already there violates the primary key and
  fails; \<open>INSERT ... ON CONFLICT(key) DO UPDATE SET value = excluded.value\<close> overwrites the
  value of the row in place. \<open>dbGet\<close> resolves to the first row of the result, or to
  \<open>undefined\<close> (\<open>None\<close>).
\<close>

datatype sql_error = SQLITE_CONSTRAINT

type_synonym settings_table = "(string \<times> string) list"

definition select_setting :: "string \<Rightarrow> settings_table \<Rightarrow> (string \<times> string) option" where
  "select_setting key tbl = find (\<lambda>row. fst row = key) tbl"

definition insert_setting :: "string \<Rightarrow> string \<Rightarrow> settings_table \<Rightarrow> sql_error + settings_table" where
  "insert_setting key val tbl =
     (if find (\<lambda>row. fst row = key) tbl \<noteq> None then Inl SQLITE_CONSTRAINT
      else Inr (tbl @ [(key, val)]))"

definition upsert_setting :: "string \<Rightarrow> string \<Rightarrow> settings_table \<Rightarrow> settings_table" where
  "upsert_setting key val tbl =
     (if find (\<lambda>row. fst row = key) tbl \<noteq> None
      then map (\<lambda>row. if fst row = key then (fst row, val) else row) tbl
      else tbl @ [(key, val)])"

text \<open>Each accessor returns its result together with the table it leaves behind.\<close>

definition ensureSetting ::
  "string \<Rightarrow> string \<Rightarrow> settings_table \<Rightarrow> sql_error + (string \<times> settings_table)" where
  "ensureSetting key fallback tbl =
     (case select_setting key tbl of
        None \<Rightarrow> (case insert_setting key fallback tbl of
                   Inl e \<Rightarrow> Inl e
                 | Inr tbl' \<Rightarrow> Inr (fallback, tbl'))
      | Some existing \<Rightarrow> Inr (snd existing, tbl))"

definition setSetting :: "string \<Rightarrow> string \<Rightarrow> settings_table \<Rightarrow> settings_table" where
  "setSetting key val tbl = upsert_setting key val tbl"

definition getSetting :: "string \<Rightarrow> string \<Rightarrow> settings_table \<Rightarrow> string \<times> settings_table" where
  "getSetting key fallback tbl =
     (case select_setting key tbl of
        Some row \<Rightarrow> (snd row, tbl)
      | None \<Rightarrow> (fallback, tbl))"

text \<open>The values stored for a key, and the invariant of the primary key.\<close>

definition values_of :: "string \<Rightarrow> settings_table \<Rightarrow> string list" where
  "values_of key tbl = map snd (filter (\<lambda>row. fst row = key) tbl)"

definition one_value_per_key :: "settings_table \<Rightarrow> bool" where
  "one_value_per_key tbl = distinct (map fst tbl)"

section \<open>The users table\<close>

text \<open>
  \<open>users (id INTEGER PRIMARY KEY AUTOINCREMENT, username TEXT UNIQUE NOT NULL, password_hash
  TEXT NOT NULL, is_admin INTEGER, created_at TEXT, email TEXT)\<close> with a unique index on the
  emails that are not \<open>NULL\<close>. The creation time is not modelled. \<open>users_seq\<close> is the largest
  id the table has handed out; a new row gets the next id after it and after every id in
  use. An \<open>INSERT\<close> that repeats a username or an email fails.
\<close>

record user_row =
  row_id :: nat
  row_username :: string
  row_email :: "string option"
  row_password_hash :: string
  row_is_admin :: int

record database =
  users :: "user_row list"
  users_seq :: nat
  settings :: settings_table

definition select_user_by_username :: "string \<Rightarrow> user_row list \<Rightarrow> user_row option" where
  "select_user_by_username name rows = find (\<lambda>r. row_username r = name) rows"

definition select_user_by_email :: "string \<Rightarrow> user_row list \<Rightarrow> user_row option" where
  "select_user_by_email mail rows = find (\<lambda>r. row_email r = Some mail) rows"

text \<open>
  \<open>SELECT ... FROM users WHERE username = ? OR email = ?\<close>: the database answers the two
  alternatives from the two unique indexes, the user name first, and \<open>dbGet\<close> takes the
  first row of the answer.
\<close>

definition select_user_by_login :: "string \<Rightarrow> string \<Rightarrow> user_row list \<Rightarrow> user_row option" where
  "select_user_by_login name mail rows =
     (case find (\<lambda>r. row_username r = name) rows of
        Some u \<Rightarrow> Some u
      | None \<Rightarrow> find (\<lambda>r. row_email r = Some mail) rows)"

definition next_id :: "database \<Rightarrow> nat" where
  "next_id d = Suc (foldr max (map row_id (users d)) (users_seq d))"

definition insert_user ::
  "string \<Rightarrow> string option \<Rightarrow> string \<Rightarrow> int \<Rightarrow> database \<Rightarrow> sql_error + (nat \<times> database)" where
  "insert_user name mail hash admin d =
     (if select_user_by_username name (users d) \<noteq> None then Inl SQLITE_CONSTRAINT
      else if mail \<noteq> None \<and> find (\<lambda>r. row_email r = mail) (users d) \<noteq> None
        then Inl SQLITE_CONSTRAINT
      else let lastID = next_id d
           in Inr (lastID,
                   d\<lparr>users := users d @
                        [\<lparr>row_id = lastID, row_username = name, row_email = mail,
                          row_password_hash = hash, row_is_admin = admin\<rparr>],
                     users_seq := lastID\<rparr>))"

section \<open>Environment, sessions and the state of the server\<close>

text \<open>
  What the program takes from its surroundings: the directory of the script and the two
  functions of the \<open>bcryptjs\<close> library. Nothing is assumed about them.
\<close>

record env =
  dirname :: string
  bcrypt_hash :: "string \<Rightarrow> nat \<Rightarrow> string"
  bcrypt_compare :: "string \<Rightarrow> string \<Rightarrow> bool"

datatype flash_type = FlashError | FlashSuccess

text \<open>
  The texts of the flash messages, by what they say: bad captcha (lines 285 and 341),
  the three fields are required (290), user name too short (295), malformed email (301), user
  name taken (307), email taken (313), account created (324), user not found (353), wrong
  password (359), logged in (370), file not available (385), only images are allowed (189),
  a ZIP archive is needed (197), no file received (423), no archive received (451), image
  updated (438), archive updated (465), and the message of any other error of the upload.
\<close>

datatype message =
    BadCaptcha | FieldsRequired | UsernameTooShort | BadEmail | UsernameTaken | EmailTaken
  | AccountCreated | UserNotFound | WrongPassword | LoggedIn | FileUnavailable
  | OnlyImages | NeedZip | NoFileReceived | NoArchiveReceived | ImageUpdated | ZipUpdated
  | UploadFailure string

record session_user =
  su_id :: nat
  su_username :: string
  su_email :: string
  su_isAdmin :: bool

record session_data =
  user :: "session_user option"
  captcha :: "string option"
  flash :: "(flash_type \<times> message) option"

definition empty_session :: session_data where
  "empty_session = \<lparr>user = None, captcha = None, flash = None\<rparr>"

record bot_user =
  bu_id :: nat
  bu_username :: string
  bu_isAdmin :: bool

text \<open>
  The state: the database, the regular files and the directories on disk by their absolute
  paths, the session of the browser that sends the requests, and the bot's map from chat
  ids to users. A handler runs from its first line to its last before the next one starts.
\<close>

record state =
  db :: database
  files :: "string set"
  dirs :: "string set"
  session :: session_data
  sessions :: "int \<rightharpoonup> bot_user"

text \<open>\<open>fs.existsSync\<close> is true of a regular file and of a directory alike.\<close>

definition existsSync :: "state \<Rightarrow> string \<Rightarrow> bool" where
  "existsSync st p = (p \<in> files st \<or> p \<in> dirs st)"

section \<open>Requests and responses\<close>

datatype http_method = GET | HEAD | POST | OTHER

record file_part =
  originalname :: string
  mimetype :: string

text \<open>
  The multipart body of an upload: no file part, a file part in the field the route reads,
  or a body that the upload middleware refuses for a reason of its own.
\<close>

datatype upload_input = NoPart | FilePart file_part | BadMultipart string

text \<open>
  A request carries its method, its URL, the fields of its urlencoded body, its upload,
  and the two values the handlers draw from outside: the text of the captcha that
  \<open>svgCaptcha.create\<close> would draw and the clock \<open>Date.now()\<close>. Every field of the
  body is a string: a body that repeats a field, which the parser would hand over as an
  array, is outside the model.
\<close>

record request =
  req_method :: http_method
  originalUrl :: string
  body :: "string \<rightharpoonup> string"
  upload :: upload_input
  captcha_text :: string
  now :: nat

record res_locals =
  currentUser :: "session_user option"
  locals_flash :: "(flash_type \<times> message) option"

text \<open>
  The responses: a redirect to a location, a rendered view with the locals of the response
  (the other parameters of the templates are not modelled), the captcha image with its
  headers, a file sent as an attachment with headers, path and file name, a static file, the
  answer 404 of the router, and a rejected database call that no handler catches.
\<close>

datatype response =
    Redirect string
  | Render string res_locals
  | SendCaptcha "(string \<times> string) list"
  | Download "(string \<times> string) list" string string
  | StaticFile string
  | NotFound
  | Unhandled sql_error

text \<open>\<open>const { k = d } = req.body\<close>\<close>

definition field :: "(string \<rightharpoonup> string) \<Rightarrow> string \<Rightarrow> string \<Rightarrow> string" where
  "field b k d = (case b k of None \<Rightarrow> d | Some v \<Rightarrow> v)"

definition url_path :: "string \<Rightarrow> string" where
  "url_path url = takeWhile (\<lambda>c. c \<noteq> CHR ''?'') url"

definition setFlash :: "flash_type \<Rightarrow> message \<Rightarrow> state \<Rightarrow> state" where
  "setFlash t m st = st\<lparr>session := (session st)\<lparr>flash := Some (t, m)\<rparr>\<rparr>"

section \<open>Constants and path resolution\<close>

definition DEFAULT_IMAGE_URL :: string where
  "DEFAULT_IMAGE_URL = ''/img/whitecore-placeholder.svg''"

definition DEFAULT_ZIP_PATH :: string where
  "DEFAULT_ZIP_PATH = path_join [''downloads'', ''whitecore-default.zip'']"

definition UPLOADS_DIR :: "env \<Rightarrow> string" where
  "UPLOADS_DIR e = path_join [dirname e, ''uploads'']"

definition DOWNLOADS_DIR :: "env \<Rightarrow> string" where
  "DOWNLOADS_DIR e = path_join [dirname e, ''downloads'']"

text \<open>\<open>storedPath.replace(/^[\\/]/, '')\<close>\<close>

definition strip_leading_separator :: "string \<Rightarrow> string" where
  "strip_leading_separator s =
     (case s of [] \<Rightarrow> [] | c # cs \<Rightarrow> if c = CHR 0x5C \<or> c = CHR ''/'' then cs else s)"

definition toAbsolutePath :: "env \<Rightarrow> string \<Rightarrow> string option" where
  "toAbsolutePath e storedPath =
     (if storedPath = [] then None
      else if isAbsolute storedPath then Some storedPath
      else Some (path_join [dirname e, strip_leading_separator storedPath]))"

section \<open>Gates\<close>

text \<open>A gate answers with \<open>Some\<close> response, or lets the request through (\<open>None\<close>).\<close>

definition requireAuth :: "request \<Rightarrow> state \<Rightarrow> response option" where
  "requireAuth req st =
     (if user (session st) = None
      then Some (Redirect (''/login?next='' @ encodeURIComponent (originalUrl req)))
      else None)"

definition requireAdmin :: "request \<Rightarrow> state \<Rightarrow> response option" where
  "requireAdmin req st =
     (case user (session st) of
        None \<Rightarrow> Some (Redirect ''/login?next=/admin'')
      | Some u \<Rightarrow> if \<not> su_isAdmin u then Some (Redirect ''/login?next=/admin'') else None)"

section \<open>Captcha, registration and login\<close>

definition get_captcha :: "request \<Rightarrow> state \<Rightarrow> response \<times> state" where
  "get_captcha req st =
     (SendCaptcha [(''Content-Type'', ''image/svg+xml''), (''Cache-Control'', ''no-store'')],
      st\<lparr>session := (session st)\<lparr>captcha := Some (toLowerCase (captcha_text req))\<rparr>\<rparr>)"

text \<open>
  \<open>!sessionCaptcha || captcha.toLowerCase() !== sessionCaptcha\<close>: a missing answer and the
  empty answer are falsy.
\<close>

definition captcha_fails :: "string option \<Rightarrow> string \<Rightarrow> bool" where
  "captcha_fails sessionCaptcha submitted =
     (case sessionCaptcha of
        None \<Rightarrow> True
      | Some a \<Rightarrow> a = [] \<or> toLowerCase submitted \<noteq> a)"

definition post_register :: "env \<Rightarrow> request \<Rightarrow> state \<Rightarrow> response \<times> state" where
  "post_register e req st =
     (let username = field (body req) ''username'' [];
          email = field (body req) ''email'' [];
          password = field (body req) ''password'' [];
          answer = field (body req) ''captcha'' [];
          next = field (body req) ''next'' ''/'';
          normalizedUser = trim username;
          normalizedEmail = toLowerCase (trim email);
          sessionCaptcha = captcha (session st);
          st1 = st\<lparr>session := (session st)\<lparr>captcha := None\<rparr>\<rparr>
      in if captcha_fails sessionCaptcha answer
           then (Redirect ''/register'', setFlash FlashError BadCaptcha st1)
         else if normalizedUser = [] \<or> password = [] \<or> normalizedEmail = []
           then (Redirect ''/register'', setFlash FlashError FieldsRequired st1)
         else if length normalizedUser < 3
           then (Redirect ''/register'', setFlash FlashError UsernameTooShort st1)
         else if \<not> rx_test emailRegex normalizedEmail
           then (Redirect ''/register'', setFlash FlashError BadEmail st1)
         else if select_user_by_username normalizedUser (users (db st1)) \<noteq> None
           then (Redirect ''/register'', setFlash FlashError UsernameTaken st1)
         else if select_user_by_email normalizedEmail (users (db st1)) \<noteq> None
           then (Redirect ''/register'', setFlash FlashError EmailTaken st1)
         else (case insert_user normalizedUser (Some normalizedEmail)
                      (bcrypt_hash e password 10) 0 (db st1) of
                 Inl err \<Rightarrow> (Unhandled err, st1)
               | Inr (lastID, d) \<Rightarrow>
                   (Redirect (or_else next ''/''),
                    setFlash FlashSuccess AccountCreated
                      (st1\<lparr>db := d,
                           session := (session st1)\<lparr>user :=
                             Some \<lparr>su_id = lastID, su_username = normalizedUser,
                                   su_email = normalizedEmail, su_isAdmin = False\<rparr>\<rparr>\<rparr>))))"

definition post_login :: "env \<Rightarrow> request \<Rightarrow> state \<Rightarrow> response \<times> state" where
  "post_login e req st =
     (let username = field (body req) ''username'' [];
          password = field (body req) ''password'' [];
          answer = field (body req) ''captcha'' [];
          next = field (body req) ''next'' ''/'';
          sessionCaptcha = captcha (session st);
          st1 = st\<lparr>session := (session st)\<lparr>captcha := None\<rparr>\<rparr>
      in if captcha_fails sessionCaptcha answer
           then (Redirect ''/login'', setFlash FlashError BadCaptcha st1)
         else let identifier = trim username;
                  identifierLower = toLowerCase identifier
              in (case select_user_by_login identifier identifierLower (users (db st1)) of
                    None \<Rightarrow> (Redirect ''/login'', setFlash FlashError UserNotFound st1)
                  | Some u \<Rightarrow>
                      if \<not> bcrypt_compare e password (row_password_hash u)
                        then (Redirect ''/login'', setFlash FlashError WrongPassword st1)
                      else (Redirect (or_else next ''/''),
                            setFlash FlashSuccess LoggedIn
                              (st1\<lparr>session := (session st1)\<lparr>user :=
                                 Some \<lparr>su_id = row_id u, su_username = row_username u,
                                       su_email = (case row_email u of None \<Rightarrow> [] | Some m \<Rightarrow> m),
                                       su_isAdmin = (row_is_admin u \<noteq> 0)\<rparr>\<rparr>\<rparr>))))"

definition post_logout :: "request \<Rightarrow> state \<Rightarrow> response \<times> state" where
  "post_logout req st =
     (case requireAuth req st of
        Some r \<Rightarrow> (r, st)
      | None \<Rightarrow> (Redirect ''/'', st\<lparr>session := empty_session\<rparr>))"

section \<open>Pages and the download\<close>

definition get_index :: "res_locals \<Rightarrow> state \<Rightarrow> response \<times> state" where
  "get_index locals st = (Render ''index'' locals, st)"

definition get_register :: "res_locals \<Rightarrow> state \<Rightarrow> response \<times> state" where
  "get_register locals st = (Render ''register'' locals, st)"

definition get_login :: "res_locals \<Rightarrow> state \<Rightarrow> response \<times> state" where
  "get_login locals st = (Render ''login'' locals, st)"

definition get_admin :: "res_locals \<Rightarrow> request \<Rightarrow> state \<Rightarrow> response \<times> state" where
  "get_admin locals req st =
     (case requireAdmin req st of
        Some r \<Rightarrow> (r, st)
      | None \<Rightarrow> (Render ''admin'' locals, st))"

text \<open>
  The download. The route tests the resolved path with \<open>fs.existsSync\<close> only. When the
  path is a directory the test passes, \<open>res.download\<close> finds the directory and hands the
  request on to the rest of the router, where no route takes it: the answer is the 404 of
  the router, and no flash is set.
\<close>

definition get_download :: "env \<Rightarrow> request \<Rightarrow> state \<Rightarrow> response \<times> state" where
  "get_download e req st =
     (case requireAuth req st of
        Some r \<Rightarrow> (r, st)
      | None \<Rightarrow>
          (let (zipPath, tbl) = getSetting ''cheat_zip_path'' DEFAULT_ZIP_PATH (settings (db st));
               st1 = st\<lparr>db := (db st)\<lparr>settings := tbl\<rparr>\<rparr>
           in case toAbsolutePath e zipPath of
                None \<Rightarrow> (Redirect ''/'', setFlash FlashError FileUnavailable st1)
              | Some absoluteZip \<Rightarrow>
                  if \<not> existsSync st1 absoluteZip
                    then (Redirect ''/'', setFlash FlashError FileUnavailable st1)
                  else if absoluteZip \<in> dirs st1 then (NotFound, st1)
                  else (Download [(''Cache-Control'', ''no-store'')] absoluteZip
                          (or_else (basename absoluteZip) ''whitecore.zip''), st1)))"

section \<open>Uploads\<close>

text \<open>
  The two \<open>multer\<close> instances: the filter of each slot, the name its disk storage gives the
  file, and what \<open>single(field)\<close> hands to the route: an error, no file, or the name of the
  file it has written into the slot's directory.
\<close>

definition imageFilter :: "file_part \<Rightarrow> bool" where
  "imageFilter f = startsWith (mimetype f) ''image/''"

definition zipFilter :: "file_part \<Rightarrow> bool" where
  "zipFilter f = endsWith (toLowerCase (originalname f)) ''.zip''"

definition imageStorage_filename :: "nat \<Rightarrow> file_part \<Rightarrow> string" where
  "imageStorage_filename t f = ''cheat-'' @ digits t @ or_else (extname (originalname f)) ''.png''"

definition zipStorage_filename :: "nat \<Rightarrow> file_part \<Rightarrow> string" where
  "zipStorage_filename t f = ''whitecore-'' @ digits t @ or_else (extname (originalname f)) ''.zip''"

datatype multer_result = MulterError message | NoFile | Stored string

definition uploadImage_single :: "env \<Rightarrow> request \<Rightarrow> string set \<Rightarrow> multer_result \<times> string set" where
  "uploadImage_single e req fs =
     (case upload req of
        NoPart \<Rightarrow> (NoFile, fs)
      | BadMultipart m \<Rightarrow> (MulterError (UploadFailure m), fs)
      | FilePart f \<Rightarrow>
          if imageFilter f
            then (let name = imageStorage_filename (now req) f
                  in (Stored name, insert (path_join [UPLOADS_DIR e, name]) fs))
          else (MulterError OnlyImages, fs))"

definition uploadZip_single :: "env \<Rightarrow> request \<Rightarrow> string set \<Rightarrow> multer_result \<times> string set" where
  "uploadZip_single e req fs =
     (case upload req of
        NoPart \<Rightarrow> (NoFile, fs)
      | BadMultipart m \<Rightarrow> (MulterError (UploadFailure m), fs)
      | FilePart f \<Rightarrow>
          if zipFilter f
            then (let name = zipStorage_filename (now req) f
                  in (Stored name, insert (path_join [DOWNLOADS_DIR e, name]) fs))
          else (MulterError NeedZip, fs))"

text \<open>
  The deletion of the previous file, as both routes write it: \<open>fs.unlink\<close> of the resolved
  path when the stored value has the prefix of the slot and the resolved path exists. The
  function works on the set of regular files: on a directory \<open>fs.unlink\<close> fails, the
  routes ignore the failure, and nothing is deleted, as when the path does not exist.
\<close>

definition unlink_previous :: "env \<Rightarrow> string \<Rightarrow> string \<Rightarrow> string set \<Rightarrow> string set" where
  "unlink_previous e area prev fs =
     (if prev \<noteq> [] \<and> startsWith prev area then
        (case toAbsolutePath e prev of
           None \<Rightarrow> fs
         | Some prevAbsolute \<Rightarrow> if prevAbsolute \<in> fs then fs - {prevAbsolute} else fs)
      else fs)"

definition post_admin_upload_image :: "env \<Rightarrow> request \<Rightarrow> state \<Rightarrow> response \<times> state" where
  "post_admin_upload_image e req st =
     (case requireAdmin req st of
        Some r \<Rightarrow> (r, st)
      | None \<Rightarrow>
          (case uploadImage_single e req (files st) of
             (MulterError m, fs) \<Rightarrow> (Redirect ''/admin'', setFlash FlashError m (st\<lparr>files := fs\<rparr>))
           | (NoFile, fs) \<Rightarrow>
               (Redirect ''/admin'', setFlash FlashError NoFileReceived (st\<lparr>files := fs\<rparr>))
           | (Stored filename, fs) \<Rightarrow>
               (let newUrl = ''/uploads/'' @ filename;
                    (prev, tbl) = getSetting ''cheat_image_url'' DEFAULT_IMAGE_URL (settings (db st));
                    fs' = unlink_previous e ''/uploads/'' prev fs;
                    tbl' = setSetting ''cheat_image_url'' newUrl tbl
                in (Redirect ''/admin'',
                    setFlash FlashSuccess ImageUpdated
                      (st\<lparr>files := fs', db := (db st)\<lparr>settings := tbl'\<rparr>\<rparr>)))))"

definition post_admin_upload_zip :: "env \<Rightarrow> request \<Rightarrow> state \<Rightarrow> response \<times> state" where
  "post_admin_upload_zip e req st =
     (case requireAdmin req st of
        Some r \<Rightarrow> (r, st)
      | None \<Rightarrow>
          (case uploadZip_single e req (files st) of
             (MulterError m, fs) \<Rightarrow> (Redirect ''/admin'', setFlash FlashError m (st\<lparr>files := fs\<rparr>))
           | (NoFile, fs) \<Rightarrow>
               (Redirect ''/admin'', setFlash FlashError NoArchiveReceived (st\<lparr>files := fs\<rparr>))
           | (Stored filename, fs) \<Rightarrow>
               (let newPath = path_join [''downloads'', filename];
                    (prev, tbl) = getSetting ''cheat_zip_path'' DEFAULT_ZIP_PATH (settings (db st));
                    fs' = unlink_previous e ''downloads'' prev fs;
                    tbl' = setSetting ''cheat_zip_path'' newPath tbl
                in (Redirect ''/admin'',
                    setFlash FlashSuccess ZipUpdated
                      (st\<lparr>files := fs', db := (db st)\<lparr>settings := tbl'\<rparr>\<rparr>)))))"

section \<open>The middleware chain and the routes\<close>

definition is_get :: "request \<Rightarrow> bool" where
  "is_get req = (req_method req = GET \<or> req_method req = HEAD)"

text \<open>
  \<open>decodeURIComponent\<close> on a path: an escape \<open>%XX\<close> stands for a byte, a byte below 128 for
  the character of that code, the two-byte sequences that start with \<open>C2\<close> or \<open>C3\<close> for the
  characters from 128 to 255. A malformed escape makes the decoding fail; so does, in this
  model, an escape for a character beyond 255, which no string of the model holds.
\<close>

definition hex_value :: "char \<Rightarrow> nat option" where
  "hex_value c =
     map_of (zip ''0123456789abcdefABCDEF''
               [0, 1, 2, 3, 4, 5, 6, 7, 8, 9, 10, 11, 12, 13, 14, 15, 10, 11, 12, 13, 14, 15]) c"

fun percent_decode :: "string \<Rightarrow> string option" where
  "percent_decode [] = Some []"
| "percent_decode (c # cs) =
     (if c \<noteq> CHR ''%'' then map_option ((#) c) (percent_decode cs)
      else (case cs of
              h # l # rest \<Rightarrow>
                (case (hex_value h, hex_value l) of
                   (Some a, Some b) \<Rightarrow>
                     (let n = 16 * a + b
                      in if n < 128 then map_option ((#) (char_of n)) (percent_decode rest)
                         else if n = 194 \<or> n = 195 then
                           (case rest of
                              p # h2 # l2 # rest2 \<Rightarrow>
                                (case (hex_value h2, hex_value l2) of
                                   (Some a2, Some b2) \<Rightarrow>
                                     (let m = 16 * a2 + b2
                                      in if p = CHR ''%'' \<and> 128 \<le> m \<and> m < 192
                                         then map_option
                                                ((#) (char_of ((n - 192) * 64 + (m - 128))))
                                                (percent_decode rest2)
                                         else None)
                                 | _ \<Rightarrow> None)
                            | _ \<Rightarrow> None)
                         else None)
                 | _ \<Rightarrow> None)
            | _ \<Rightarrow> None))"

text \<open>
  The path of the file system at which \<open>express.static\<close> looks for a request path, as the
  \<open>send\<close> library computes it: the path is decoded, refused when it holds a NUL, normalised
  below the root, refused when a \<open>..\<close> segment is left (between slashes or backslashes) or
  when its last segment is a dot file (the default of the library that comes with version 4
  of the framework), and joined to the root. A refused path is passed on to the next
  middleware.
\<close>

definition send_path :: "string \<Rightarrow> string \<Rightarrow> string option" where
  "send_path root p =
     (case percent_decode p of
        None \<Rightarrow> None
      | Some d \<Rightarrow>
          if CHR 0x00 \<in> set d then None
          else let rel = (if d = [] then [] else normalize (''./'' @ d))
               in if ''..'' \<in> set (splitOn (CHR ''/'')
                                     (map (\<lambda>c. if c = CHR 0x5C then CHR ''/'' else c) rel))
                    then None
                  else if list_ex (\<lambda>seg. 1 < length seg \<and> hd seg = CHR ''.'')
                            (splitOn (CHR ''/'') rel)
                          \<and> take 1 (last (splitOn (CHR ''/'') rel)) = ''.''
                    then None
                  else Some (path_join [root, rel]))"

text \<open>
  The answer of \<open>express.static\<close> for a path: a path that ends with a slash stands for the
  \<open>index.html\<close> below it; a directory named without the slash is answered with a redirect
  to the original URL with the slash added; a regular file is sent; everything else is
  passed on (\<open>None\<close>).
\<close>

definition serve_static :: "string \<Rightarrow> string \<Rightarrow> string \<Rightarrow> state \<Rightarrow> response option" where
  "serve_static root p location st =
     (case send_path root p of
        None \<Rightarrow> None
      | Some target \<Rightarrow>
          if p \<noteq> [] \<and> last p = CHR ''/'' then
            (let index = path_join [target, ''index.html'']
             in if index \<in> files st \<and> index \<notin> dirs st then Some (StaticFile index) else None)
          else if target \<in> dirs st then Some (Redirect location)
          else if target \<in> files st then Some (StaticFile target)
          else None)"

text \<open>
  The location of that redirect: the path of the original URL with a slash added and a
  run of slashes at its start collapsed, followed by the query as it came.
\<close>

definition collapseLeadingSlashes :: "string \<Rightarrow> string" where
  "collapseLeadingSlashes s =
     (let r = dropWhile (\<lambda>c. c = CHR ''/'') s
      in if 1 < length s - length r then CHR ''/'' # r else s)"

definition directory_location :: "string \<Rightarrow> string" where
  "directory_location url =
     collapseLeadingSlashes (url_path url @ ''/'') @ drop (length (url_path url)) url"

definition static_public :: "env \<Rightarrow> request \<Rightarrow> state \<Rightarrow> response option" where
  "static_public e req st =
     (if is_get req
      then serve_static (path_join [dirname e, ''public'']) (url_path (originalUrl req))
             (directory_location (originalUrl req)) st
      else None)"

text \<open>
  Mounted at \<open>/uploads\<close>: the mount point is matched without regard to case, at the end of
  the path or before a slash, and is cut off the path that the middleware sees.
\<close>

definition static_uploads :: "env \<Rightarrow> request \<Rightarrow> state \<Rightarrow> response option" where
  "static_uploads e req st =
     (let p = url_path (originalUrl req)
      in if is_get req
            \<and> (toLowerCase p = ''/uploads'' \<or> startsWith (toLowerCase p) ''/uploads/'')
         then serve_static (UPLOADS_DIR e) (drop 8 p) (directory_location (originalUrl req)) st
         else None)"

text \<open>
  A route matches a path without regard to case, with or without one slash at the end
  (the defaults of the router).
\<close>

definition route_match :: "string \<Rightarrow> string \<Rightarrow> bool" where
  "route_match pattern p =
     (toLowerCase p = pattern \<or> (pattern \<noteq> ''/'' \<and> toLowerCase p = pattern @ ''/''))"

definition routes :: "env \<Rightarrow> res_locals \<Rightarrow> request \<Rightarrow> state \<Rightarrow> response \<times> state" where
  "routes e locals req st =
     (let p = url_path (originalUrl req);
          m = req_method req
      in if is_get req \<and> route_match ''/captcha'' p then get_captcha req st
         else if is_get req \<and> route_match ''/'' p then get_index locals st
         else if is_get req \<and> route_match ''/register'' p then get_register locals st
         else if m = POST \<and> route_match ''/register'' p then post_register e req st
         else if is_get req \<and> route_match ''/login'' p then get_login locals st
         else if m = POST \<and> route_match ''/login'' p then post_login e req st
         else if m = POST \<and> route_match ''/logout'' p then post_logout req st
         else if is_get req \<and> route_match ''/download'' p then get_download e req st
         else if is_get req \<and> route_match ''/admin'' p then get_admin locals req st
         else if m = POST \<and> route_match ''/admin/upload-image'' p
           then post_admin_upload_image e req st
         else if m = POST \<and> route_match ''/admin/upload-zip'' p
           then post_admin_upload_zip e req st
         else (NotFound, st))"

text \<open>
  The middleware of lines 214 to 220: the flash of the session moves into the locals of the
  response and leaves the session.
\<close>

definition locals_middleware :: "state \<Rightarrow> res_locals \<times> state" where
  "locals_middleware st =
     (\<lparr>currentUser = user (session st), locals_flash = flash (session st)\<rparr>,
      st\<lparr>session := (session st)\<lparr>flash := None\<rparr>\<rparr>)"

definition app :: "env \<Rightarrow> request \<Rightarrow> state \<Rightarrow> response \<times> state" where
  "app e req st =
     (case static_public e req st of
        Some r \<Rightarrow> (r, st)
      | None \<Rightarrow>
          (case static_uploads e req st of
             Some r \<Rightarrow> (r, st)
           | None \<Rightarrow> (let (locals, st1) = locals_middleware st in routes e locals req st1)))"

text \<open>The state after a list of requests, one after the other.\<close>

fun run :: "env \<Rightarrow> request list \<Rightarrow> state \<Rightarrow> state" where
  "run e [] st = st"
| "run e (r # rs) st = run e rs (snd (app e r st))"

section \<open>Start-up\<close>




section \<open>The bot\<close>

text \<open>
  Each handler of the bot is one step on the state. The text the library matched is the
  argument of the step: for \<open>/login (.+)\<close> the captured credentials.
\<close>

datatype bot_text =
    HelpText | LoginFormat | BadCredentials | Greeting string | LoginFirst | Unavailable
  | LoggedOut

text \<open>
  What a handler of the bot does: it sends a message, it sends a document (path and file
  name), or its \<open>sendDocument\<close> fails because the path is a directory and nothing is sent.
\<close>

datatype bot_reply =
    SendMessage int bot_text
  | SendDocument int string string
  | SendDocumentFails int string

definition loginWithCredentials :: "env \<Rightarrow> string \<Rightarrow> string \<Rightarrow> database \<Rightarrow> bot_user option" where
  "loginWithCredentials e username password d =
     (let identifier = trim username;
          identifierLower = toLowerCase identifier
      in case select_user_by_login identifier identifierLower (users d) of
           None \<Rightarrow> None
         | Some u \<Rightarrow>
             if \<not> bcrypt_compare e password (row_password_hash u) then None
             else Some \<lparr>bu_id = row_id u, bu_username = row_username u,
                        bu_isAdmin = (row_is_admin u \<noteq> 0)\<rparr>)"

definition bot_start :: "int \<Rightarrow> state \<Rightarrow> bot_reply \<times> state" where
  "bot_start chat st = (SendMessage chat HelpText, st)"

text \<open>\<open>const [username, password] = credentials.split(/\s+/)\<close>: a missing piece is undefined.\<close>

definition credentials_username :: "string \<Rightarrow> string" where
  "credentials_username credentials = (case split_ws credentials of [] \<Rightarrow> [] | u # _ \<Rightarrow> u)"

definition credentials_password :: "string \<Rightarrow> string" where
  "credentials_password credentials =
     (case split_ws credentials of u # p # _ \<Rightarrow> p | _ \<Rightarrow> [])"

definition bot_login :: "env \<Rightarrow> int \<Rightarrow> string \<Rightarrow> state \<Rightarrow> bot_reply \<times> state" where
  "bot_login e chat credentials st =
     (let username = credentials_username credentials;
          password = credentials_password credentials
      in if username = [] \<or> password = [] then (SendMessage chat LoginFormat, st)
         else (case loginWithCredentials e username password (db st) of
                 None \<Rightarrow> (SendMessage chat BadCredentials, st)
               | Some u \<Rightarrow>
                   (SendMessage chat (Greeting (bu_username u)),
                    st\<lparr>sessions := (sessions st)(chat \<mapsto> u)\<rparr>)))"

definition bot_download :: "env \<Rightarrow> int \<Rightarrow> state \<Rightarrow> bot_reply \<times> state" where
  "bot_download e chat st =
     (case sessions st chat of
        None \<Rightarrow> (SendMessage chat LoginFirst, st)
      | Some sessionUser \<Rightarrow>
          (let (zipPath, tbl) = getSetting ''cheat_zip_path'' DEFAULT_ZIP_PATH (settings (db st));
               st1 = st\<lparr>db := (db st)\<lparr>settings := tbl\<rparr>\<rparr>
           in case toAbsolutePath e zipPath of
                None \<Rightarrow> (SendMessage chat Unavailable, st1)
              | Some absoluteZip \<Rightarrow>
                  if \<not> existsSync st1 absoluteZip then (SendMessage chat Unavailable, st1)
                  else if absoluteZip \<in> dirs st1 then (SendDocumentFails chat absoluteZip, st1)
                  else (SendDocument chat absoluteZip (basename absoluteZip), st1)))"

definition bot_logout :: "int \<Rightarrow> state \<Rightarrow> bot_reply \<times> state" where
  "bot_logout chat st = (SendMessage chat LoggedOut, st\<lparr>sessions := (sessions st)(chat := None)\<rparr>)"

datatype bot_event = BotStart int | BotLogin int string | BotDownload int | BotLogout int

fun bot_step :: "env \<Rightarrow> bot_event \<Rightarrow> state \<Rightarrow> bot_reply \<times> state" where
  "bot_step e (BotStart chat) st = bot_start chat st"
| "bot_step e (BotLogin chat credentials) st = bot_login e chat credentials st"
| "bot_step e (BotDownload chat) st = bot_download e chat st"
| "bot_step e (BotLogout chat) st = bot_logout chat st"

text \<open>The state after a list of steps of the bot.\<close>

fun bot_run :: "env \<Rightarrow> bot_event list \<Rightarrow> state \<Rightarrow> state" where
  "bot_run e [] st = st"
| "bot_run e (ev # evs) st = bot_run e evs (snd (bot_step e ev st))"

section \<open>Notions used in the statements\<close>

text \<open>A request that the router hands to the captcha route, and one that it hands to a \<open>POST\<close> route.\<close>

definition issues_captcha :: "request \<Rightarrow> bool" where
  "issues_captcha req = (is_get req \<and> route_match ''/captcha'' (url_path (originalUrl req)))"

definition posts_to :: "string \<Rightarrow> request \<Rightarrow> bool" where
  "posts_to pattern req =
     (req_method req = POST \<and> route_match pattern (url_path (originalUrl req)))"

text \<open>
  The failures of validation of a registration, as the specification lists them: a wrong
  or absent captcha, a missing user name, email or password, a trimmed user name of fewer
  than three characters, an email that has not the shape of an email, a user name or a
  lower-cased email that the users table already holds.
\<close>

definition username_taken :: "request \<Rightarrow> state \<Rightarrow> bool" where
  "username_taken req st =
     list_ex (\<lambda>r. row_username r = trim (field (body req) ''username'' [])) (users (db st))"

definition email_taken :: "request \<Rightarrow> state \<Rightarrow> bool" where
  "email_taken req st =
     list_ex (\<lambda>r. row_email r = Some (toLowerCase (trim (field (body req) ''email'' []))))
       (users (db st))"

definition registration_invalid :: "request \<Rightarrow> state \<Rightarrow> bool" where
  "registration_invalid req st =
     (captcha_fails (captcha (session st)) (field (body req) ''captcha'' [])
      \<or> trim (field (body req) ''username'' []) = []
      \<or> toLowerCase (trim (field (body req) ''email'' [])) = []
      \<or> field (body req) ''password'' [] = []
      \<or> length (trim (field (body req) ''username'' [])) < 3
      \<or> \<not> rx_test emailRegex (toLowerCase (trim (field (body req) ''email'' [])))
      \<or> username_taken req st
      \<or> email_taken req st)"

text \<open>A request that one of the two static middlewares answers.\<close>

definition static_served :: "env \<Rightarrow> request \<Rightarrow> state \<Rightarrow> bool" where
  "static_served e req st = (static_public e req st \<noteq> None \<or> static_uploads e req st \<noteq> None)"

text \<open>The identity snapshot that a login puts into the session.\<close>

definition snapshot :: "user_row \<Rightarrow> session_user" where
  "snapshot u = \<lparr>su_id = row_id u, su_username = row_username u,
                  su_email = (case row_email u of None \<Rightarrow> [] | Some m \<Rightarrow> m),
                  su_isAdmin = (row_is_admin u \<noteq> 0)\<rparr>"


text \<open>
  An upload that is refused: the answer is the redirect to \<open>/admin\<close> with an error flash,
  and the database and the files on disk are as before.
\<close>

definition upload_refused :: "response \<times> state \<Rightarrow> state \<Rightarrow> bool" where
  "upload_refused R st =
     (fst R = Redirect ''/admin''
      \<and> (\<exists>m. flash (session (snd R)) = Some (FlashError, m))
      \<and> db (snd R) = db st
      \<and> files (snd R) = files st)"

text \<open>
  What the bot keeps of a user: the snapshot of the session without the email. A login of
  the bot is successful when both pieces of the credentials are there and the check accepts
  them.
\<close>

definition bot_view :: "session_user \<Rightarrow> bot_user" where
  "bot_view u = \<lparr>bu_id = su_id u, bu_username = su_username u, bu_isAdmin = su_isAdmin u\<rparr>"

definition bot_login_succeeds :: "env \<Rightarrow> string \<Rightarrow> database \<Rightarrow> bool" where
  "bot_login_succeeds e credentials d =
     (credentials_username credentials \<noteq> [] \<and> credentials_password credentials \<noteq> []
      \<and> loginWithCredentials e (credentials_username credentials)
            (credentials_password credentials) d \<noteq> None)"


section \<open>A small installation\<close>

text \<open>
  Concrete values on which the theorems are instantiated: an installation in \<open>/srv/app\<close>
  with a stand-in for the hash (the password behind a fixed prefix), the administrator of
  the start-up and one registered user.
\<close>

definition demo_env :: env where
  "demo_env = \<lparr>dirname = ''/srv/app'',
               bcrypt_hash = (\<lambda>p rounds. ''$2a$'' @ p),
               bcrypt_compare = (\<lambda>p h. h = ''$2a$'' @ p)\<rparr>"

definition demo_db :: database where
  "demo_db =
     \<lparr>users = [\<lparr>row_id = 1, row_username = ''RURI'', row_email = None,
                 row_password_hash = ''$2a$Wat3hahak'', row_is_admin = 1\<rparr>,
                \<lparr>row_id = 2, row_username = ''bob'', row_email = Some ''bob@example.com'',
                 row_password_hash = ''$2a$secret'', row_is_admin = 0\<rparr>],
      users_seq = 2,
      settings = [(''cheat_image_url'', ''/img/whitecore-placeholder.svg''),
                  (''cheat_zip_path'', ''downloads/whitecore-default.zip'')]\<rparr>"

definition demo_state :: state where
  "demo_state =
     \<lparr>db = demo_db, files = {''/srv/app/public/js/admin.js''},
      dirs = {''/srv/app/uploads'', ''/srv/app/downloads''},
      session = \<lparr>user = None, captcha = Some ''x7k2p'', flash = None\<rparr>,
      sessions = Map.empty\<rparr>"

definition demo_request :: "http_method \<Rightarrow> string \<Rightarrow> (string \<times> string) list \<Rightarrow> request" where
  "demo_request m url kvs =
     \<lparr>req_method = m, originalUrl = url, body = map_of kvs, upload = NoPart,
      captcha_text = ''Qw4Rt'', now = 1700000000000\<rparr>"

definition bob_session :: session_user where
  "bob_session = \<lparr>su_id = 2, su_username = ''bob'', su_email = ''bob@example.com'',
                   su_isAdmin = False\<rparr>"

definition admin_session :: session_user where
  "admin_session = \<lparr>su_id = 1, su_username = ''RURI'', su_email = [], su_isAdmin = True\<rparr>"

text \<open>The installation right after its first start, with the administrator logged in.\<close>

definition fresh_db :: database where
  "fresh_db =
     \<lparr>users = [\<lparr>row_id = 1, row_username = ''RURI'', row_email = None,
                 row_password_hash = ''$2a$Wat3hahak'', row_is_admin = 1\<rparr>],
      users_seq = 1,
      settings = [(''cheat_image_url'', ''/img/whitecore-placeholder.svg''),
                  (''cheat_zip_path'', ''downloads/whitecore-default.zip'')]\<rparr>"

definition fresh_state :: state where
  "fresh_state =
     \<lparr>db = fresh_db, files = {}, dirs = {''/srv/app/uploads'', ''/srv/app/downloads''},
      session = \<lparr>user = Some admin_session, captcha = None, flash = None\<rparr>,
      sessions = Map.empty\<rparr>"



text \<open>
  Uploads: an image and an archive at clock 2, and the installation after a first image and
  a first archive have been uploaded at clock 1.
\<close>

definition photo_upload :: request where
  "photo_upload =
     \<lparr>req_method = POST, originalUrl = ''/admin/upload-image'', body = Map.empty,
      upload = FilePart \<lparr>originalname = ''Photo.PNG'', mimetype = ''image/png''\<rparr>,
      captcha_text = [], now = 2\<rparr>"

definition archive_upload :: request where
  "archive_upload =
     \<lparr>req_method = POST, originalUrl = ''/admin/upload-zip'', body = Map.empty,
      upload = FilePart \<lparr>originalname = ''client.zip'', mimetype = ''application/zip''\<rparr>,
      captcha_text = [], now = 2\<rparr>"

definition stocked_state :: state where
  "stocked_state =
     \<lparr>db = fresh_db\<lparr>settings := [(''cheat_image_url'', ''/uploads/cheat-1.png''),
                                   (''cheat_zip_path'', ''downloads/whitecore-1.zip'')]\<rparr>,
      files = {''/srv/app/uploads/cheat-1.png'', ''/srv/app/downloads/whitecore-1.zip''},
      dirs = {''/srv/app/uploads'', ''/srv/app/downloads''},
      session = \<lparr>user = Some admin_session, captcha = None, flash = None\<rparr>,
      sessions = Map.empty\<rparr>"

section \<open>Evaluation\<close>

text \<open>The equations that evaluate strings, paths and the small installation.\<close>

lemmas demo_simps = demo_env_def demo_db_def demo_state_def demo_request_def
  trim_def toLowerCase_def lower_char_def upper_letters_def lower_letters_def is_space_def
  field_def

lemmas path_simps = path_join_def normalize_def isAbsolute_def

lemmas uri_simps = encodeURIComponent_def encode_char_def uri_unreserved_def percent_byte_def
  hex_digit_def

section \<open>The settings accessors keep their contract\<close>

lemma find_key_None: "(find (\<lambda>row. fst row = key) tbl = None) = (key \<notin> fst ` set tbl)"
  by (induction tbl) auto

lemma values_of_absent: "key \<notin> fst ` set tbl \<Longrightarrow> values_of key tbl = []"
  by (induction tbl) (auto simp: values_of_def)

lemma values_of_append: "values_of key (xs @ ys) = values_of key xs @ values_of key ys"
  by (simp add: values_of_def)

lemma values_of_distinct_find:
  "distinct (map fst tbl) \<Longrightarrow> find (\<lambda>row. fst row = key) tbl = Some r \<Longrightarrow> values_of key tbl = [snd r]"
proof (induction tbl)
  case Nil
  then show ?case by simp
next
  case (Cons a tbl)
  show ?case
  proof (cases "fst a = key")
    case True
    with Cons.prems have "r = a" and "key \<notin> fst ` set tbl" by auto
    then show ?thesis using True values_of_absent [of key tbl] by (simp add: values_of_def)
  next
    case False
    with Cons show ?thesis by (simp add: values_of_def)
  qed
qed

lemma fst_overwrite: "fst \<circ> (\<lambda>row. if fst row = key then (fst row, val) else row) = fst"
  by (rule ext) simp

lemma find_key_append:
  "find (\<lambda>row. fst row = key) (xs @ ys) =
     (case find (\<lambda>row. fst row = key) xs of None \<Rightarrow> find (\<lambda>row. fst row = key) ys | Some r \<Rightarrow> Some r)"
  by (induction xs) auto

lemma values_of_overwrite:
  "values_of k (map (\<lambda>row. if fst row = key then (fst row, val) else row) tbl) =
     (if k = key then map (\<lambda>_. val) (values_of key tbl) else values_of k tbl)"
  by (induction tbl) (auto simp: values_of_def)

lemma one_value_per_key_setSetting:
  "one_value_per_key tbl \<Longrightarrow> one_value_per_key (setSetting key val tbl)"
  by (auto simp: one_value_per_key_def setSetting_def upsert_setting_def fst_overwrite
      find_key_None)

lemma values_of_setSetting_same:
  "one_value_per_key tbl \<Longrightarrow> values_of key (setSetting key val tbl) = [val]"
proof (cases "find (\<lambda>row. fst row = key) tbl")
  case None
  then have "key \<notin> fst ` set tbl" by (simp add: find_key_None)
  then have "values_of key tbl = []" by (rule values_of_absent)
  with None show ?thesis
    by (simp add: setSetting_def upsert_setting_def values_of_append) (simp add: values_of_def)
next
  case (Some r)
  assume "one_value_per_key tbl"
  then have "values_of key tbl = [snd r]"
    using Some by (simp add: one_value_per_key_def values_of_distinct_find)
  with Some show ?thesis
    by (simp add: setSetting_def upsert_setting_def values_of_overwrite)
qed

lemma values_of_setSetting_other:
  "k \<noteq> key \<Longrightarrow> values_of k (setSetting key val tbl) = values_of k tbl"
  by (simp add: setSetting_def upsert_setting_def values_of_overwrite values_of_append)
     (simp add: values_of_def)

lemma getSetting_after_setSetting:
  "fst (getSetting key fb (setSetting key val tbl)) = val"
proof -
  have "find (\<lambda>row. fst row = key) (setSetting key val tbl) = Some (key, val)"
  proof (cases "find (\<lambda>row. fst row = key) tbl")
    case None
    then show ?thesis
      by (simp add: setSetting_def upsert_setting_def find_key_append)
  next
    case (Some r)
    have "find (\<lambda>row. fst row = key) tbl = Some r \<Longrightarrow>
          find (\<lambda>row. fst row = key) (map (\<lambda>row. if fst row = key then (fst row, val) else row) tbl)
            = Some (key, val)"
      by (induction tbl) (auto split: if_splits)
    with Some show ?thesis by (simp add: setSetting_def upsert_setting_def)
  qed
  then show ?thesis by (simp add: getSetting_def select_setting_def)
qed

text \<open>
  C7. The settings accessors meet their contract on every table that satisfies the primary
  key. When no value is stored for the key, \<open>ensureSetting\<close> appends the fallback row and
  returns the fallback, and \<open>getSetting\<close> returns the fallback; when a value is stored, it
  is the only one and both return it; \<open>ensureSetting\<close> then leaves the table alone, and
  \<open>getSetting\<close> never changes it. After \<open>setSetting\<close> exactly one value, the new one, is
  stored for the key and read back, and the values of the other keys are untouched. All
  three keep at most one value per key.
\<close>

theorem settings_accessors_contract:
  assumes "one_value_per_key tbl"
  shows "(case values_of key tbl of
            [] \<Rightarrow> ensureSetting key fallback tbl = Inr (fallback, tbl @ [(key, fallback)])
                  \<and> values_of key (tbl @ [(key, fallback)]) = [fallback]
                  \<and> one_value_per_key (tbl @ [(key, fallback)])
                  \<and> getSetting key fallback tbl = (fallback, tbl)
          | v # vs \<Rightarrow> vs = []
                  \<and> ensureSetting key fallback tbl = Inr (v, tbl)
                  \<and> getSetting key fallback tbl = (v, tbl))
         \<and> values_of key (setSetting key val tbl) = [val]
         \<and> fst (getSetting key fallback (setSetting key val tbl)) = val
         \<and> (\<forall>k. k \<noteq> key \<longrightarrow> values_of k (setSetting key val tbl) = values_of k tbl)
         \<and> one_value_per_key (setSetting key val tbl)"
proof -
  have first: "case values_of key tbl of
            [] \<Rightarrow> ensureSetting key fallback tbl = Inr (fallback, tbl @ [(key, fallback)])
                  \<and> values_of key (tbl @ [(key, fallback)]) = [fallback]
                  \<and> one_value_per_key (tbl @ [(key, fallback)])
                  \<and> getSetting key fallback tbl = (fallback, tbl)
          | v # vs \<Rightarrow> vs = []
                  \<and> ensureSetting key fallback tbl = Inr (v, tbl)
                  \<and> getSetting key fallback tbl = (v, tbl)"
  proof (cases "select_setting key tbl")
    case None
    then have absent: "key \<notin> fst ` set tbl"
      by (simp add: select_setting_def find_key_None)
    then have e: "values_of key tbl = []" by (rule values_of_absent)
    then have v: "values_of key (tbl @ [(key, fallback)]) = [fallback]"
      by (simp add: values_of_append) (simp add: values_of_def)
    have i: "one_value_per_key (tbl @ [(key, fallback)])"
      using assms absent by (simp add: one_value_per_key_def)
    from None e v i absent show ?thesis
      by (simp add: ensureSetting_def getSetting_def insert_setting_def find_key_None)
  next
    case (Some row)
    then have "values_of key tbl = [snd row]"
      using assms by (simp add: select_setting_def one_value_per_key_def values_of_distinct_find)
    with Some show ?thesis by (simp add: ensureSetting_def getSetting_def)
  qed
  have second: "values_of key (setSetting key val tbl) = [val]"
    using assms by (rule values_of_setSetting_same)
  have third: "fst (getSetting key fallback (setSetting key val tbl)) = val"
    by (rule getSetting_after_setSetting)
  have fourth: "\<forall>k. k \<noteq> key \<longrightarrow> values_of k (setSetting key val tbl) = values_of k tbl"
    by (simp add: values_of_setSetting_other)
  have fifth: "one_value_per_key (setSetting key val tbl)"
    using assms by (rule one_value_per_key_setSetting)
  from first second third fourth fifth show ?thesis by blast
qed

theorem settings_accessors_contract_witness:
  "one_value_per_key [(''cheat_image_url'', ''/img/a.svg'')]
   \<and> ensureSetting ''cheat_zip_path'' ''downloads/d.zip'' [(''cheat_image_url'', ''/img/a.svg'')]
       = Inr (''downloads/d.zip'',
              [(''cheat_image_url'', ''/img/a.svg''), (''cheat_zip_path'', ''downloads/d.zip'')])
   \<and> getSetting ''cheat_zip_path'' ''downloads/d.zip'' [(''cheat_image_url'', ''/img/a.svg'')]
       = (''downloads/d.zip'', [(''cheat_image_url'', ''/img/a.svg'')])
   \<and> values_of ''cheat_zip_path''
         (setSetting ''cheat_zip_path'' ''downloads/n.zip'' [(''cheat_image_url'', ''/img/a.svg'')])
       = [''downloads/n.zip'']
   \<and> values_of ''cheat_image_url''
         (setSetting ''cheat_zip_path'' ''downloads/n.zip'' [(''cheat_image_url'', ''/img/a.svg'')])
       = [''/img/a.svg'']"
  using settings_accessors_contract
    [of "[(''cheat_image_url'', ''/img/a.svg'')]" "''cheat_zip_path''" "''downloads/d.zip''"
        "''downloads/n.zip''"]
  by (simp add: one_value_per_key_def values_of_def)

section \<open>What the handlers leave alone\<close>

lemma getSetting_table [simp]: "snd (getSetting key fallback tbl) = tbl"
  by (simp add: getSetting_def split: option.splits)

lemma getSetting_pair: "getSetting key fallback tbl = (fst (getSetting key fallback tbl), tbl)"
  by (simp add: getSetting_def split: option.splits)

lemma get_download_frame:
  "sessions (snd (get_download e req st)) = sessions st
   \<and> captcha (session (snd (get_download e req st))) = captcha (session st)
   \<and> user (session (snd (get_download e req st))) = user (session st)
   \<and> files (snd (get_download e req st)) = files st
   \<and> dirs (snd (get_download e req st)) = dirs st
   \<and> db (snd (get_download e req st)) = db st"
  by (cases "getSetting ''cheat_zip_path'' DEFAULT_ZIP_PATH (settings (db st))")
     (use getSetting_table [of "''cheat_zip_path''" DEFAULT_ZIP_PATH "settings (db st)"] in
      \<open>auto simp: get_download_def setFlash_def Let_def split: option.splits\<close>)

lemma post_logout_frame:
  "sessions (snd (post_logout req st)) = sessions st
   \<and> (captcha (session st) = None \<longrightarrow> captcha (session (snd (post_logout req st))) = None)"
  by (simp add: post_logout_def empty_session_def split: option.splits)

lemma post_register_frame:
  "sessions (snd (post_register e req st)) = sessions st
   \<and> captcha (session (snd (post_register e req st))) = None"
  by (simp add: post_register_def Let_def setFlash_def split: sum.splits prod.splits)

lemma post_login_frame:
  "sessions (snd (post_login e req st)) = sessions st
   \<and> captcha (session (snd (post_login e req st))) = None"
  by (simp add: post_login_def Let_def setFlash_def split: option.splits)

lemma upload_image_frame:
  "sessions (snd (post_admin_upload_image e req st)) = sessions st
   \<and> captcha (session (snd (post_admin_upload_image e req st))) = captcha (session st)"
  by (simp add: post_admin_upload_image_def Let_def setFlash_def
      split: option.splits prod.splits multer_result.splits)

lemma upload_zip_frame:
  "sessions (snd (post_admin_upload_zip e req st)) = sessions st
   \<and> captcha (session (snd (post_admin_upload_zip e req st))) = captcha (session st)"
  by (simp add: post_admin_upload_zip_def Let_def setFlash_def
      split: option.splits prod.splits multer_result.splits)

lemma get_admin_frame: "snd (get_admin locals req st) = st"
  by (simp add: get_admin_def split: option.splits)

lemma get_captcha_frame: "sessions (snd (get_captcha req st)) = sessions st"
  by (simp add: get_captcha_def)

lemma routes_sessions: "sessions (snd (routes e locals req st)) = sessions st"
  by (simp add: routes_def Let_def get_index_def get_register_def get_login_def
      get_admin_frame get_captcha_frame post_register_frame post_login_frame post_logout_frame
      get_download_frame upload_image_frame upload_zip_frame)

lemma routes_captcha_None:
  "captcha (session st) = None \<Longrightarrow> \<not> issues_captcha req \<Longrightarrow>
     captcha (session (snd (routes e locals req st))) = None"
  by (auto simp: routes_def Let_def get_index_def get_register_def get_login_def issues_captcha_def
      get_admin_frame post_register_frame post_login_frame post_logout_frame
      get_download_frame upload_image_frame upload_zip_frame)

lemma app_sessions: "sessions (snd (app e req st)) = sessions st"
  by (simp add: app_def locals_middleware_def routes_sessions split: option.splits)

lemma app_captcha_None:
  "captcha (session st) = None \<Longrightarrow> \<not> issues_captcha req \<Longrightarrow>
     captcha (session (snd (app e req st))) = None"
  by (simp add: app_def locals_middleware_def routes_captcha_None split: option.splits)

lemma run_captcha_None:
  "captcha (session st) = None \<Longrightarrow> \<forall>r \<in> set rs. \<not> issues_captcha r \<Longrightarrow>
     captcha (session (run e rs st)) = None"
  by (induction rs arbitrary: st) (simp_all add: app_captcha_None)

section \<open>Registration\<close>

lemma foldr_max_ge: "x \<in> set xs \<Longrightarrow> x \<le> foldr max xs (b::nat)"
  by (induction xs) (auto simp: max_def)

lemma next_id_fresh: "r \<in> set (users d) \<Longrightarrow> row_id r < next_id d"
  using foldr_max_ge [of "row_id r" "map row_id (users d)" "users_seq d"]
  by (simp add: next_id_def less_Suc_eq_le)

lemma find_None_list_ex: "(find P xs = None) = (\<not> list_ex P xs)"
  by (auto simp: find_None_iff list_ex_iff)

lemma post_register_rejects:
  assumes "registration_invalid req st"
  shows "\<exists>m. post_register e req st =
           (Redirect ''/register'',
            setFlash FlashError m (st\<lparr>session := (session st)\<lparr>captcha := None\<rparr>\<rparr>))"
  using assms
  by (auto simp: registration_invalid_def username_taken_def email_taken_def post_register_def
      Let_def select_user_by_username_def select_user_by_email_def find_None_list_ex)

lemma post_register_accepts:
  assumes "\<not> registration_invalid req st"
  shows "post_register e req st =
     (Redirect (or_else (field (body req) ''next'' ''/'') ''/''),
      setFlash FlashSuccess AccountCreated
        (st\<lparr>db := (db st)\<lparr>users := users (db st) @
                 [\<lparr>row_id = next_id (db st),
                   row_username = trim (field (body req) ''username'' []),
                   row_email = Some (toLowerCase (trim (field (body req) ''email'' []))),
                   row_password_hash = bcrypt_hash e (field (body req) ''password'' []) 10,
                   row_is_admin = 0\<rparr>],
                 users_seq := next_id (db st)\<rparr>,
             session := (session st)\<lparr>captcha := None, user :=
               Some \<lparr>su_id = next_id (db st),
                     su_username = trim (field (body req) ''username'' []),
                     su_email = toLowerCase (trim (field (body req) ''email'' [])),
                     su_isAdmin = False\<rparr>\<rparr>\<rparr>))"
  using assms
  by (simp add: registration_invalid_def username_taken_def email_taken_def post_register_def
      Let_def select_user_by_username_def select_user_by_email_def find_None_list_ex
      insert_user_def)

text \<open>
  C2. A registration that fails validation (wrong or absent captcha, a missing field, a short
  user name, a malformed email, a user name or an email already in the table) is answered
  with a redirect to \<open>/register\<close> and an error flash, and leaves the database and the
  user of the session as they were; in particular a registration whose user name is in the
  table never changes the users table. A registration that passes all checks appends
  exactly one row, with a fresh id, the trimmed user name, the lower-cased email and the
  hash of the password, puts the snapshot of that row into the session, and redirects to
  the \<open>next\<close> target with a success flash.
\<close>

theorem post_register_validation:
  "(registration_invalid req st \<longrightarrow>
      fst (post_register e req st) = Redirect ''/register''
      \<and> (\<exists>m. flash (session (snd (post_register e req st))) = Some (FlashError, m))
      \<and> db (snd (post_register e req st)) = db st
      \<and> user (session (snd (post_register e req st))) = user (session st))
   \<and> (username_taken req st \<longrightarrow> users (db (snd (post_register e req st))) = users (db st))
   \<and> (\<not> registration_invalid req st \<longrightarrow>
      (\<exists>row. users (db (snd (post_register e req st))) = users (db st) @ [row]
         \<and> row_username row = trim (field (body req) ''username'' [])
         \<and> row_email row = Some (toLowerCase (trim (field (body req) ''email'' [])))
         \<and> row_password_hash row = bcrypt_hash e (field (body req) ''password'' []) 10
         \<and> row_is_admin row = 0
         \<and> row_id row \<notin> row_id ` set (users (db st))
         \<and> user (session (snd (post_register e req st))) =
               Some \<lparr>su_id = row_id row, su_username = row_username row,
                     su_email = toLowerCase (trim (field (body req) ''email'' [])),
                     su_isAdmin = False\<rparr>)
      \<and> fst (post_register e req st) = Redirect (or_else (field (body req) ''next'' ''/'') ''/'')
      \<and> flash (session (snd (post_register e req st))) = Some (FlashSuccess, AccountCreated))"
proof (intro conjI impI)
  assume inv: "registration_invalid req st"
  then obtain m where m: "post_register e req st =
           (Redirect ''/register'',
            setFlash FlashError m (st\<lparr>session := (session st)\<lparr>captcha := None\<rparr>\<rparr>))"
    using post_register_rejects by blast
  show "fst (post_register e req st) = Redirect ''/register''" by (simp add: m)
  show "\<exists>m. flash (session (snd (post_register e req st))) = Some (FlashError, m)"
    by (simp add: m setFlash_def)
  show "db (snd (post_register e req st)) = db st" by (simp add: m setFlash_def)
  show "user (session (snd (post_register e req st))) = user (session st)"
    by (simp add: m setFlash_def)
next
  assume "username_taken req st"
  then have "registration_invalid req st" by (simp add: registration_invalid_def)
  then obtain m where m: "post_register e req st =
           (Redirect ''/register'',
            setFlash FlashError m (st\<lparr>session := (session st)\<lparr>captcha := None\<rparr>\<rparr>))"
    using post_register_rejects by blast
  show "users (db (snd (post_register e req st))) = users (db st)" by (simp add: m setFlash_def)
next
  assume ok: "\<not> registration_invalid req st"
  note acc = post_register_accepts [OF ok, of e]
  have fresh: "next_id (db st) \<notin> row_id ` set (users (db st))"
    using next_id_fresh [of _ "db st"] by fastforce
  show "\<exists>row. users (db (snd (post_register e req st))) = users (db st) @ [row]
         \<and> row_username row = trim (field (body req) ''username'' [])
         \<and> row_email row = Some (toLowerCase (trim (field (body req) ''email'' [])))
         \<and> row_password_hash row = bcrypt_hash e (field (body req) ''password'' []) 10
         \<and> row_is_admin row = 0
         \<and> row_id row \<notin> row_id ` set (users (db st))
         \<and> user (session (snd (post_register e req st))) =
               Some \<lparr>su_id = row_id row, su_username = row_username row,
                     su_email = toLowerCase (trim (field (body req) ''email'' [])),
                     su_isAdmin = False\<rparr>"
    using fresh by (simp add: acc setFlash_def)
  show "fst (post_register e req st) = Redirect (or_else (field (body req) ''next'' ''/'') ''/'')"
    by (simp add: acc)
  show "flash (session (snd (post_register e req st))) = Some (FlashSuccess, AccountCreated)"
    by (simp add: acc setFlash_def)
qed

theorem post_register_validation_witness:
  "registration_invalid
     (demo_request POST ''/register''
        [(''username'', ''bob''), (''email'', ''new@example.com''), (''password'', ''pw''),
         (''captcha'', ''X7K2P'')]) demo_state
   \<and> fst (post_register demo_env
            (demo_request POST ''/register''
               [(''username'', ''bob''), (''email'', ''new@example.com''), (''password'', ''pw''),
                (''captcha'', ''X7K2P'')]) demo_state) = Redirect ''/register''
   \<and> users (db (snd (post_register demo_env
            (demo_request POST ''/register''
               [(''username'', ''bob''), (''email'', ''new@example.com''), (''password'', ''pw''),
                (''captcha'', ''X7K2P'')]) demo_state))) = users demo_db
   \<and> \<not> registration_invalid
        (demo_request POST ''/register''
           [(''username'', '' carol ''), (''email'', ''Carol@Example.com''), (''password'', ''pw''),
            (''captcha'', ''X7K2P'')]) demo_state
   \<and> (\<exists>row. users (db (snd (post_register demo_env
            (demo_request POST ''/register''
               [(''username'', '' carol ''), (''email'', ''Carol@Example.com''),
                (''password'', ''pw''), (''captcha'', ''X7K2P'')]) demo_state)))
            = users demo_db @ [row]
          \<and> row_username row = ''carol'' \<and> row_email row = Some ''carol@example.com'')
   \<and> fst (post_register demo_env
            (demo_request POST ''/register''
               [(''username'', '' carol ''), (''email'', ''Carol@Example.com''),
                (''password'', ''pw''), (''captcha'', ''X7K2P'')]) demo_state) = Redirect ''/''"
proof -
  let ?a = "demo_request POST ''/register''
        [(''username'', ''bob''), (''email'', ''new@example.com''), (''password'', ''pw''),
         (''captcha'', ''X7K2P'')]"
  let ?b = "demo_request POST ''/register''
        [(''username'', '' carol ''), (''email'', ''Carol@Example.com''), (''password'', ''pw''),
         (''captcha'', ''X7K2P'')]"
  have a: "registration_invalid ?a demo_state"
    by (simp add: registration_invalid_def username_taken_def email_taken_def captcha_fails_def
        demo_simps emailRegex_def not_at_or_space_def)
  have b: "\<not> registration_invalid ?b demo_state"
    by (simp add: registration_invalid_def username_taken_def email_taken_def captcha_fails_def
        demo_simps emailRegex_def not_at_or_space_def)
  have u: "trim (field (body ?b) ''username'' []) = ''carol''"
    by (simp add: demo_simps)
  have m: "toLowerCase (trim (field (body ?b) ''email'' [])) = ''carol@example.com''"
    by (simp add: demo_simps)
  have n: "or_else (field (body ?b) ''next'' ''/'') ''/'' = ''/''"
    by (simp add: demo_simps or_else_def)
  have d: "db demo_state = demo_db" by (simp add: demo_state_def)
  from post_register_validation [of ?a demo_state demo_env] a d
  have ra: "fst (post_register demo_env ?a demo_state) = Redirect ''/register''
            \<and> users (db (snd (post_register demo_env ?a demo_state))) = users demo_db"
    by simp
  from post_register_validation [of ?b demo_state demo_env] b u m n d
  have rb: "(\<exists>row. users (db (snd (post_register demo_env ?b demo_state))) = users demo_db @ [row]
               \<and> row_username row = ''carol'' \<and> row_email row = Some ''carol@example.com'')
            \<and> fst (post_register demo_env ?b demo_state) = Redirect ''/''"
    by auto
  from a b ra rb show ?thesis by blast
qed

section \<open>Login\<close>


lemma find_Some_holds: "find P xs = Some x \<Longrightarrow> x \<in> set xs \<and> P x"
  by (induction xs) (auto split: if_splits)

lemma find_login_None:
  "(select_user_by_login a b rows = None) =
     (\<forall>r \<in> set rows. row_username r \<noteq> a \<and> row_email r \<noteq> Some b)"
proof (cases "find (\<lambda>r. row_username r = a) rows")
  case None
  then show ?thesis
    by (simp add: select_user_by_login_def) (auto simp: find_None_iff)
next
  case (Some u)
  then have "u \<in> set rows \<and> row_username u = a" by (rule find_Some_holds)
  with Some show ?thesis by (auto simp: select_user_by_login_def)
qed

lemma find_login_Some:
  "select_user_by_login a b rows = Some u \<Longrightarrow>
     u \<in> set rows \<and> (row_username u = a \<or> row_email u = Some b)"
proof (cases "find (\<lambda>r. row_username r = a) rows")
  case None
  assume "select_user_by_login a b rows = Some u"
  with None have "find (\<lambda>r. row_email r = Some b) rows = Some u"
    by (simp add: select_user_by_login_def)
  then show ?thesis using find_Some_holds by fastforce
next
  case (Some v)
  assume "select_user_by_login a b rows = Some u"
  with Some have "v = u" by (simp add: select_user_by_login_def)
  with Some show ?thesis using find_Some_holds by fastforce
qed

text \<open>
  C6. A login that passes the captcha check looks the user up by the trimmed identifier as
  user name or by the lower-cased trimmed identifier as email. When no row matches, the
  answer is the redirect to \<open>/login\<close> with the flash "user not found"; when a row matches
  and the password fails the verification against its hash, the answer is the redirect to
  \<open>/login\<close> with the different flash "wrong password"; in both cases the user of the
  session stays as it was. Only when the verification succeeds does the session receive
  the snapshot (id, user name, email, admin flag) of the row, with a redirect to the
  \<open>next\<close> target.
\<close>

theorem post_login_outcomes:
  assumes "\<not> captcha_fails (captcha (session st)) (field (body req) ''captcha'' [])"
  shows "((\<forall>r \<in> set (users (db st)).
             row_username r \<noteq> trim (field (body req) ''username'' [])
             \<and> row_email r \<noteq> Some (toLowerCase (trim (field (body req) ''username'' []))))
          \<and> fst (post_login e req st) = Redirect ''/login''
          \<and> flash (session (snd (post_login e req st))) = Some (FlashError, UserNotFound)
          \<and> user (session (snd (post_login e req st))) = user (session st))
       \<or> (\<exists>u \<in> set (users (db st)).
             (row_username u = trim (field (body req) ''username'' [])
              \<or> row_email u = Some (toLowerCase (trim (field (body req) ''username'' []))))
             \<and> (if bcrypt_compare e (field (body req) ''password'' []) (row_password_hash u)
                 then fst (post_login e req st) =
                        Redirect (or_else (field (body req) ''next'' ''/'') ''/'')
                      \<and> flash (session (snd (post_login e req st))) = Some (FlashSuccess, LoggedIn)
                      \<and> user (session (snd (post_login e req st))) = Some (snapshot u)
                 else fst (post_login e req st) = Redirect ''/login''
                      \<and> flash (session (snd (post_login e req st))) = Some (FlashError, WrongPassword)
                      \<and> user (session (snd (post_login e req st))) = user (session st)))"
proof (cases "select_user_by_login (trim (field (body req) ''username'' []))
                (toLowerCase (trim (field (body req) ''username'' []))) (users (db st))")
  case None
  then have "\<forall>r \<in> set (users (db st)).
             row_username r \<noteq> trim (field (body req) ''username'' [])
             \<and> row_email r \<noteq> Some (toLowerCase (trim (field (body req) ''username'' [])))"
    by (simp add: find_login_None)
  moreover from None assms have "post_login e req st =
      (Redirect ''/login'',
       setFlash FlashError UserNotFound (st\<lparr>session := (session st)\<lparr>captcha := None\<rparr>\<rparr>))"
    by (simp add: post_login_def Let_def)
  ultimately show ?thesis by (simp add: setFlash_def)
next
  case (Some u)
  then have mem: "u \<in> set (users (db st))"
    and hit: "row_username u = trim (field (body req) ''username'' [])
              \<or> row_email u = Some (toLowerCase (trim (field (body req) ''username'' [])))"
    using find_login_Some by blast+
  have "if bcrypt_compare e (field (body req) ''password'' []) (row_password_hash u)
        then fst (post_login e req st) = Redirect (or_else (field (body req) ''next'' ''/'') ''/'')
             \<and> flash (session (snd (post_login e req st))) = Some (FlashSuccess, LoggedIn)
             \<and> user (session (snd (post_login e req st))) = Some (snapshot u)
        else fst (post_login e req st) = Redirect ''/login''
             \<and> flash (session (snd (post_login e req st))) = Some (FlashError, WrongPassword)
             \<and> user (session (snd (post_login e req st))) = user (session st)"
    using Some assms by (simp add: post_login_def Let_def setFlash_def snapshot_def)
  with mem hit show ?thesis by blast
qed

theorem post_login_outcomes_witness:
  "\<not> captcha_fails (captcha (session demo_state))
       (field (body (demo_request POST ''/login''
          [(''username'', '' Bob@Example.com''), (''password'', ''secret''),
           (''captcha'', ''X7K2P''), (''next'', ''/download'')])) ''captcha'' [])
   \<and> fst (post_login demo_env
            (demo_request POST ''/login''
               [(''username'', '' Bob@Example.com''), (''password'', ''secret''),
                (''captcha'', ''X7K2P''), (''next'', ''/download'')]) demo_state)
       = Redirect ''/download''
   \<and> user (session (snd (post_login demo_env
            (demo_request POST ''/login''
               [(''username'', '' Bob@Example.com''), (''password'', ''secret''),
                (''captcha'', ''X7K2P''), (''next'', ''/download'')]) demo_state)))
       = Some bob_session"
proof -
  let ?r = "demo_request POST ''/login''
               [(''username'', '' Bob@Example.com''), (''password'', ''secret''),
                (''captcha'', ''X7K2P''), (''next'', ''/download'')]"
  have c: "\<not> captcha_fails (captcha (session demo_state)) (field (body ?r) ''captcha'' [])"
    by (simp add: captcha_fails_def demo_simps)
  have u: "trim (field (body ?r) ''username'' []) = ''Bob@Example.com''"
    by (simp add: demo_simps)
  have l: "toLowerCase ''Bob@Example.com'' = ''bob@example.com''"
    by (simp add: demo_simps)
  have p: "field (body ?r) ''password'' [] = ''secret''" by (simp add: demo_simps)
  have n: "or_else (field (body ?r) ''next'' ''/'') ''/'' = ''/download''"
    by (simp add: demo_simps or_else_def)
  have d: "users (db demo_state) = users demo_db" by (simp add: demo_state_def)
  from post_login_outcomes [OF c, of demo_env]
  have "fst (post_login demo_env ?r demo_state) = Redirect ''/download''
        \<and> user (session (snd (post_login demo_env ?r demo_state))) = Some bob_session"
    unfolding u l p n d
    by (simp add: demo_db_def demo_env_def snapshot_def bob_session_def)
  with c show ?thesis by simp
qed

section \<open>The captcha is single-use\<close>

lemma posts_not_get: "posts_to pattern req \<Longrightarrow> \<not> is_get req"
  by (simp add: posts_to_def is_get_def)

lemma app_post_register:
  "posts_to ''/register'' req \<Longrightarrow>
     app e req st = post_register e req (st\<lparr>session := (session st)\<lparr>flash := None\<rparr>\<rparr>)"
  by (simp add: app_def static_public_def static_uploads_def posts_not_get locals_middleware_def
      routes_def Let_def) (simp add: posts_to_def)

lemma app_post_login:
  "posts_to ''/login'' req \<Longrightarrow>
     app e req st = post_login e req (st\<lparr>session := (session st)\<lparr>flash := None\<rparr>\<rparr>)"
  by (simp add: app_def static_public_def static_uploads_def posts_not_get locals_middleware_def
      routes_def Let_def) (auto simp: posts_to_def route_match_def)

lemma post_register_no_captcha:
  "captcha (session st) = None \<Longrightarrow>
     post_register e req st =
       (Redirect ''/register'',
        setFlash FlashError BadCaptcha (st\<lparr>session := (session st)\<lparr>captcha := None\<rparr>\<rparr>))"
  by (simp add: post_register_def captcha_fails_def Let_def)

lemma post_login_no_captcha:
  "captcha (session st) = None \<Longrightarrow>
     post_login e req st =
       (Redirect ''/login'',
        setFlash FlashError BadCaptcha (st\<lparr>session := (session st)\<lparr>captcha := None\<rparr>\<rparr>))"
  by (simp add: post_login_def captcha_fails_def Let_def)

lemma app_register_no_captcha:
  "captcha (session s) = None \<Longrightarrow> posts_to ''/register'' req \<Longrightarrow>
     fst (app e req s) = Redirect ''/register''
     \<and> flash (session (snd (app e req s))) = Some (FlashError, BadCaptcha)"
  by (simp add: app_post_register post_register_no_captcha setFlash_def)

lemma app_login_no_captcha:
  "captcha (session s) = None \<Longrightarrow> posts_to ''/login'' req \<Longrightarrow>
     fst (app e req s) = Redirect ''/login''
     \<and> flash (session (snd (app e req s))) = Some (FlashError, BadCaptcha)"
  by (simp add: app_post_login post_login_no_captcha setFlash_def)

text \<open>
  C1. A captcha answer passes at most one check. Both \<open>POST /register\<close> and
  \<open>POST /login\<close> leave the session without a captcha answer, whatever the comparison
  gives; a check on a session without an answer is refused with the bad-captcha flash and
  the redirect to its form, and changes neither the database nor the user of the session.
  So after a first check and any further requests that do not reach the captcha route, a
  second check is refused as a bad captcha. The comparison itself ignores case: the answer
  issued for the text \<open>t\<close> rejects a submission exactly when \<open>t\<close> is empty or differs from
  it after lower-casing both.
\<close>

theorem captcha_single_use:
  "captcha (session (snd (post_register e req st))) = None
   \<and> captcha (session (snd (post_login e req st))) = None
   \<and> (captcha (session st) = None \<longrightarrow>
         fst (post_register e req st) = Redirect ''/register''
         \<and> flash (session (snd (post_register e req st))) = Some (FlashError, BadCaptcha)
         \<and> db (snd (post_register e req st)) = db st
         \<and> user (session (snd (post_register e req st))) = user (session st)
         \<and> fst (post_login e req st) = Redirect ''/login''
         \<and> flash (session (snd (post_login e req st))) = Some (FlashError, BadCaptcha)
         \<and> user (session (snd (post_login e req st))) = user (session st))
   \<and> ((posts_to ''/register'' first \<or> posts_to ''/login'' first)
          \<and> (\<forall>r \<in> set rs. \<not> issues_captcha r) \<longrightarrow>
         (posts_to ''/register'' second \<longrightarrow>
            fst (app e second (run e (first # rs) st)) = Redirect ''/register''
            \<and> flash (session (snd (app e second (run e (first # rs) st))))
                = Some (FlashError, BadCaptcha))
         \<and> (posts_to ''/login'' second \<longrightarrow>
            fst (app e second (run e (first # rs) st)) = Redirect ''/login''
            \<and> flash (session (snd (app e second (run e (first # rs) st))))
                = Some (FlashError, BadCaptcha)))
   \<and> (captcha_fails (captcha (session (snd (get_captcha creq st)))) answer
        = (captcha_text creq = [] \<or> toLowerCase answer \<noteq> toLowerCase (captcha_text creq)))"
proof (intro conjI impI)
  show "captcha (session (snd (post_register e req st))) = None"
    by (simp add: post_register_frame)
  show "captcha (session (snd (post_login e req st))) = None"
    by (simp add: post_login_frame)
  show "captcha_fails (captcha (session (snd (get_captcha creq st)))) answer
        = (captcha_text creq = [] \<or> toLowerCase answer \<noteq> toLowerCase (captcha_text creq))"
    by (simp add: get_captcha_def captcha_fails_def) (simp add: toLowerCase_def)
next
  assume none: "captcha (session st) = None"
  note r = post_register_no_captcha [OF none, of e req]
  note l = post_login_no_captcha [OF none, of e req]
  show "fst (post_register e req st) = Redirect ''/register''" by (simp add: r)
  show "flash (session (snd (post_register e req st))) = Some (FlashError, BadCaptcha)"
    by (simp add: r setFlash_def)
  show "db (snd (post_register e req st)) = db st" by (simp add: r setFlash_def)
  show "user (session (snd (post_register e req st))) = user (session st)"
    by (simp add: r setFlash_def)
  show "fst (post_login e req st) = Redirect ''/login''" by (simp add: l)
  show "flash (session (snd (post_login e req st))) = Some (FlashError, BadCaptcha)"
    by (simp add: l setFlash_def)
  show "user (session (snd (post_login e req st))) = user (session st)"
    by (simp add: l setFlash_def)
next
  assume h: "(posts_to ''/register'' first \<or> posts_to ''/login'' first)
          \<and> (\<forall>r \<in> set rs. \<not> issues_captcha r)"
  then have "captcha (session (snd (app e first st))) = None"
    by (auto simp: app_post_register app_post_login post_register_frame post_login_frame)
  with h have none: "captcha (session (run e (first # rs) st)) = None"
    by (simp add: run_captcha_None)
  show "posts_to ''/register'' second \<Longrightarrow>
          fst (app e second (run e (first # rs) st)) = Redirect ''/register''"
    using app_register_no_captcha [OF none] by blast
  show "posts_to ''/register'' second \<Longrightarrow>
          flash (session (snd (app e second (run e (first # rs) st))))
            = Some (FlashError, BadCaptcha)"
    using app_register_no_captcha [OF none] by blast
  show "posts_to ''/login'' second \<Longrightarrow>
          fst (app e second (run e (first # rs) st)) = Redirect ''/login''"
    using app_login_no_captcha [OF none] by blast
  show "posts_to ''/login'' second \<Longrightarrow>
          flash (session (snd (app e second (run e (first # rs) st))))
            = Some (FlashError, BadCaptcha)"
    using app_login_no_captcha [OF none] by blast
qed

theorem captcha_single_use_witness:
  "posts_to ''/login''
     (demo_request POST ''/login''
        [(''username'', ''bob''), (''password'', ''secret''), (''captcha'', ''X7K2P'')])
   \<and> \<not> issues_captcha (demo_request GET ''/login'' [])
   \<and> \<not> captcha_fails (captcha (session demo_state)) ''X7K2P''
   \<and> fst (app demo_env
            (demo_request POST ''/login''
               [(''username'', ''bob''), (''password'', ''secret''), (''captcha'', ''X7K2P'')])
            (run demo_env
               [demo_request POST ''/login''
                  [(''username'', ''bob''), (''password'', ''secret''), (''captcha'', ''X7K2P'')],
                demo_request GET ''/login'' []]
               demo_state)) = Redirect ''/login''
   \<and> flash (session (snd (app demo_env
            (demo_request POST ''/login''
               [(''username'', ''bob''), (''password'', ''secret''), (''captcha'', ''X7K2P'')])
            (run demo_env
               [demo_request POST ''/login''
                  [(''username'', ''bob''), (''password'', ''secret''), (''captcha'', ''X7K2P'')],
                demo_request GET ''/login'' []]
               demo_state)))) = Some (FlashError, BadCaptcha)"
proof -
  let ?p = "demo_request POST ''/login''
        [(''username'', ''bob''), (''password'', ''secret''), (''captcha'', ''X7K2P'')]"
  let ?g = "demo_request GET ''/login'' []"
  have p: "posts_to ''/login'' ?p"
    by (simp add: posts_to_def route_match_def url_path_def demo_simps)
  have g: "\<not> issues_captcha ?g"
    by (simp add: issues_captcha_def route_match_def url_path_def demo_simps)
  have c: "\<not> captcha_fails (captcha (session demo_state)) ''X7K2P''"
    by (simp add: captcha_fails_def demo_simps)
  from captcha_single_use [of demo_env ?p demo_state ?p "[?g]" ?p] p g
  have "fst (app demo_env ?p (run demo_env [?p, ?g] demo_state)) = Redirect ''/login''
        \<and> flash (session (snd (app demo_env ?p (run demo_env [?p, ?g] demo_state))))
            = Some (FlashError, BadCaptcha)"
    by simp
  with p g c show ?thesis by blast
qed

section \<open>The flash message\<close>

lemma serve_static_session:
  "serve_static root p location (st\<lparr>session := s\<rparr>) = serve_static root p location st"
  by (simp add: serve_static_def Let_def split: option.splits)

lemma static_public_session:
  "static_public e req (st\<lparr>session := s\<rparr>) = static_public e req st"
  by (simp add: static_public_def serve_static_session)

lemma static_uploads_session:
  "static_uploads e req (st\<lparr>session := s\<rparr>) = static_uploads e req st"
  by (auto simp: static_uploads_def serve_static_session Let_def)

lemma routes_state_locals:
  "snd (routes e l1 req st) = snd (routes e l2 req st)"
  by (simp add: routes_def Let_def get_index_def get_register_def get_login_def get_admin_frame)

lemma app_dynamic:
  "\<not> static_served e req st \<Longrightarrow>
     app e req st =
       routes e \<lparr>currentUser = user (session st), locals_flash = flash (session st)\<rparr> req
         (st\<lparr>session := (session st)\<lparr>flash := None\<rparr>\<rparr>)"
  by (auto simp: static_served_def app_def locals_middleware_def)

lemma app_static: "static_served e req st \<Longrightarrow> snd (app e req st) = st"
  by (auto simp: static_served_def app_def split: option.splits)

text \<open>
  C10, as the code has it. A request that neither static middleware answers passes the
  middleware of the locals before its route: the route runs with the pending flash in the
  locals of the response and with a session that holds no flash. The state such a request
  leaves behind does not depend on the flash it found, whether it renders a page or not:
  the flash is consumed. A request that a static middleware answers never reaches that
  middleware and leaves the state, and with it a pending flash, as it was.
\<close>

theorem flash_consumed_by_next_dynamic_request:
  "(\<not> static_served e req st \<longrightarrow>
      app e req st =
        routes e \<lparr>currentUser = user (session st), locals_flash = flash (session st)\<rparr> req
          (st\<lparr>session := (session st)\<lparr>flash := None\<rparr>\<rparr>)
      \<and> snd (app e req (st\<lparr>session := (session st)\<lparr>flash := f\<rparr>\<rparr>))
          = snd (app e req (st\<lparr>session := (session st)\<lparr>flash := None\<rparr>\<rparr>)))
   \<and> (static_served e req st \<longrightarrow> snd (app e req st) = st)"
proof (intro conjI impI)
  assume d: "\<not> static_served e req st"
  show "app e req st =
        routes e \<lparr>currentUser = user (session st), locals_flash = flash (session st)\<rparr> req
          (st\<lparr>session := (session st)\<lparr>flash := None\<rparr>\<rparr>)"
    using d by (rule app_dynamic)
  have d1: "\<not> static_served e req (st\<lparr>session := s\<rparr>)" for s
    using d by (simp add: static_served_def static_public_session static_uploads_session)
  show "snd (app e req (st\<lparr>session := (session st)\<lparr>flash := f\<rparr>\<rparr>))
          = snd (app e req (st\<lparr>session := (session st)\<lparr>flash := None\<rparr>\<rparr>))"
    by (simp add: app_dynamic [OF d1]) (rule routes_state_locals)
next
  assume "static_served e req st"
  then show "snd (app e req st) = st" by (rule app_static)
qed

lemmas static_simps = static_public_def static_uploads_def serve_static_def send_path_def
  is_get_def url_path_def startsWith_def

lemma js_static:
  "files s = files demo_state \<Longrightarrow> dirs s = dirs demo_state \<Longrightarrow>
     static_public demo_env (demo_request GET ''/js/admin.js'' []) s
       = Some (StaticFile ''/srv/app/public/js/admin.js'')"
  by (simp add: static_simps path_simps demo_simps)

lemma post_login_bad_captcha:
  "captcha_fails (captcha (session st)) (field (body req) ''captcha'' []) \<Longrightarrow>
     post_login e req st =
       (Redirect ''/login'',
        setFlash FlashError BadCaptcha (st\<lparr>session := (session st)\<lparr>captcha := None\<rparr>\<rparr>))"
  by (simp add: post_login_def Let_def)

theorem flash_consumed_by_next_dynamic_request_witness:
  "\<not> static_served demo_env (demo_request POST ''/logout'' []) demo_state
   \<and> snd (app demo_env (demo_request POST ''/logout'' [])
          (demo_state\<lparr>session := (session demo_state)\<lparr>flash := Some (FlashSuccess, LoggedIn)\<rparr>\<rparr>))
     = snd (app demo_env (demo_request POST ''/logout'' [])
          (demo_state\<lparr>session := (session demo_state)\<lparr>flash := None\<rparr>\<rparr>))
   \<and> static_served demo_env (demo_request GET ''/js/admin.js'' []) demo_state
   \<and> snd (app demo_env (demo_request GET ''/js/admin.js'' []) demo_state) = demo_state"
proof -
  let ?o = "demo_request POST ''/logout'' []"
  let ?j = "demo_request GET ''/js/admin.js'' []"
  have d: "\<not> static_served demo_env ?o demo_state"
    by (simp add: static_served_def static_public_def static_uploads_def is_get_def demo_simps)
  have s: "static_served demo_env ?j demo_state"
    by (simp add: static_served_def js_static)
  from flash_consumed_by_next_dynamic_request [of demo_env ?o demo_state "Some (FlashSuccess, LoggedIn)"] d
  have one: "snd (app demo_env ?o
          (demo_state\<lparr>session := (session demo_state)\<lparr>flash := Some (FlashSuccess, LoggedIn)\<rparr>\<rparr>))
     = snd (app demo_env ?o (demo_state\<lparr>session := (session demo_state)\<lparr>flash := None\<rparr>\<rparr>))"
    by blast
  from flash_consumed_by_next_dynamic_request [of demo_env ?j demo_state None] s
  have two: "snd (app demo_env ?j demo_state) = demo_state" by blast
  from d s one two show ?thesis by blast
qed

text \<open>
  C10 does not hold for every request. After a login with a wrong captcha has set the flash,
  the request for the script \<open>/js/admin.js\<close> is answered by the static middleware and the
  flash stays in the session; the request after that, \<open>GET /login\<close>, renders the flash that
  was set two requests before.
\<close>

theorem flash_survives_static_request:
  "flash (session (run demo_env
       [demo_request POST ''/login'' [(''captcha'', ''wrong'')]] demo_state))
     = Some (FlashError, BadCaptcha)
   \<and> fst (app demo_env (demo_request GET ''/js/admin.js'' [])
          (run demo_env [demo_request POST ''/login'' [(''captcha'', ''wrong'')]] demo_state))
     = StaticFile ''/srv/app/public/js/admin.js''
   \<and> flash (session (run demo_env
       [demo_request POST ''/login'' [(''captcha'', ''wrong'')],
        demo_request GET ''/js/admin.js'' []] demo_state))
     = Some (FlashError, BadCaptcha)
   \<and> fst (app demo_env (demo_request GET ''/login'' [])
          (run demo_env
             [demo_request POST ''/login'' [(''captcha'', ''wrong'')],
              demo_request GET ''/js/admin.js'' []] demo_state))
     = Render ''login'' \<lparr>currentUser = None, locals_flash = Some (FlashError, BadCaptcha)\<rparr>"
proof -
  let ?p = "demo_request POST ''/login'' [(''captcha'', ''wrong'')]"
  let ?j = "demo_request GET ''/js/admin.js'' []"
  let ?g = "demo_request GET ''/login'' []"
  define s1 where "s1 = snd (app demo_env ?p demo_state)"
  have p: "posts_to ''/login'' ?p"
    by (simp add: posts_to_def route_match_def url_path_def demo_simps)
  have c: "captcha_fails (captcha (session (demo_state\<lparr>session := (session demo_state)\<lparr>flash := None\<rparr>\<rparr>)))
             (field (body ?p) ''captcha'' [])"
    by (simp add: captcha_fails_def demo_simps)
  have s1: "flash (session s1) = Some (FlashError, BadCaptcha)"
           "files s1 = files demo_state" "user (session s1) = None"
           "dirs s1 = dirs demo_state"
    unfolding s1_def app_post_login [OF p] post_login_bad_captcha [OF c]
    by (simp_all add: setFlash_def demo_state_def)
  have j: "app demo_env ?j s1 = (StaticFile ''/srv/app/public/js/admin.js'', s1)"
    by (simp add: app_def js_static [OF s1(2) s1(4)])
  have not_static: "\<not> static_served demo_env ?g s1"
    by (simp add: static_served_def static_simps path_simps s1(2) s1(4) demo_simps)
  have g: "fst (app demo_env ?g s1)
        = Render ''login'' \<lparr>currentUser = None, locals_flash = Some (FlashError, BadCaptcha)\<rparr>"
    unfolding app_dynamic [OF not_static]
    by (simp add: s1 routes_def Let_def is_get_def route_match_def
        url_path_def get_login_def demo_simps)
  have r1: "run demo_env [?p] demo_state = s1" by (simp add: s1_def)
  have r2: "run demo_env [?p, ?j] demo_state = s1" by (simp add: s1_def [symmetric] j)
  show ?thesis unfolding r1 r2 using s1(1) j g by simp
qed

section \<open>The gates\<close>

lemma requireAdmin_blocks:
  "user (session st) = None \<or> (\<exists>u. user (session st) = Some u \<and> \<not> su_isAdmin u) \<Longrightarrow>
     requireAdmin req st = Some (Redirect ''/login?next=/admin'')"
  by (auto simp: requireAdmin_def)

text \<open>
  C5, as the code has it. On a session without a user, or with a user who is not an
  administrator, the admin gate answers with the redirect to \<open>/login?next=/admin\<close>, and each
  of the three admin routes returns that redirect and the state as it was: nothing is
  rendered, stored or changed. On a session without a user the plain gate answers with the
  redirect to \<open>/login?next=\<close> followed by the original URL as \<open>encodeURIComponent\<close>
  writes it, and so do the two routes behind it. An administrator passes the admin gate and
  any user passes the plain gate.
\<close>

theorem gates_redirect_to_login:
  "((user (session st) = None \<or> (\<exists>u. user (session st) = Some u \<and> \<not> su_isAdmin u)) \<longrightarrow>
       requireAdmin req st = Some (Redirect ''/login?next=/admin'')
       \<and> get_admin locals req st = (Redirect ''/login?next=/admin'', st)
       \<and> post_admin_upload_image e req st = (Redirect ''/login?next=/admin'', st)
       \<and> post_admin_upload_zip e req st = (Redirect ''/login?next=/admin'', st))
   \<and> (user (session st) = None \<longrightarrow>
       requireAuth req st =
         Some (Redirect (''/login?next='' @ encodeURIComponent (originalUrl req)))
       \<and> get_download e req st =
           (Redirect (''/login?next='' @ encodeURIComponent (originalUrl req)), st)
       \<and> post_logout req st =
           (Redirect (''/login?next='' @ encodeURIComponent (originalUrl req)), st))
   \<and> ((\<exists>u. user (session st) = Some u \<and> su_isAdmin u) \<longrightarrow> requireAdmin req st = None)
   \<and> (user (session st) \<noteq> None \<longrightarrow> requireAuth req st = None)"
proof (intro conjI impI)
  assume "user (session st) = None \<or> (\<exists>u. user (session st) = Some u \<and> \<not> su_isAdmin u)"
  then have b: "requireAdmin req st = Some (Redirect ''/login?next=/admin'')"
    by (rule requireAdmin_blocks)
  show "requireAdmin req st = Some (Redirect ''/login?next=/admin'')" by (rule b)
  show "get_admin locals req st = (Redirect ''/login?next=/admin'', st)"
    by (simp add: get_admin_def b)
  show "post_admin_upload_image e req st = (Redirect ''/login?next=/admin'', st)"
    by (simp add: post_admin_upload_image_def b)
  show "post_admin_upload_zip e req st = (Redirect ''/login?next=/admin'', st)"
    by (simp add: post_admin_upload_zip_def b)
next
  assume n: "user (session st) = None"
  then have b: "requireAuth req st =
         Some (Redirect (''/login?next='' @ encodeURIComponent (originalUrl req)))"
    by (simp add: requireAuth_def)
  show "requireAuth req st =
         Some (Redirect (''/login?next='' @ encodeURIComponent (originalUrl req)))" by (rule b)
  show "get_download e req st =
           (Redirect (''/login?next='' @ encodeURIComponent (originalUrl req)), st)"
    by (simp add: get_download_def b)
  show "post_logout req st =
           (Redirect (''/login?next='' @ encodeURIComponent (originalUrl req)), st)"
    by (simp add: post_logout_def b)
next
  assume "\<exists>u. user (session st) = Some u \<and> su_isAdmin u"
  then show "requireAdmin req st = None" by (auto simp: requireAdmin_def)
next
  assume "user (session st) \<noteq> None"
  then show "requireAuth req st = None" by (simp add: requireAuth_def)
qed

theorem gates_redirect_to_login_witness:
  "user (session demo_state) = None
   \<and> get_admin \<lparr>currentUser = None, locals_flash = None\<rparr> (demo_request GET ''/admin'' [])
        demo_state = (Redirect ''/login?next=/admin'', demo_state)
   \<and> get_download demo_env (demo_request GET ''/download?x=1'' []) demo_state
       = (Redirect ''/login?next=%2Fdownload%3Fx%3D1'', demo_state)"
proof -
  let ?a = "demo_request GET ''/admin'' []"
  let ?d = "demo_request GET ''/download?x=1'' []"
  have n: "user (session demo_state) = None" by (simp add: demo_state_def)
  have u: "encodeURIComponent (originalUrl ?d) = ''%2Fdownload%3Fx%3D1''"
    by (simp add: demo_request_def uri_simps)
  from gates_redirect_to_login
         [of demo_state ?a "\<lparr>currentUser = None, locals_flash = None\<rparr>" demo_env] n
  have a: "get_admin \<lparr>currentUser = None, locals_flash = None\<rparr> ?a demo_state
             = (Redirect ''/login?next=/admin'', demo_state)"
    by blast
  from gates_redirect_to_login [of demo_state ?d _ demo_env] n
  have "get_download demo_env ?d demo_state
          = (Redirect (''/login?next='' @ encodeURIComponent (originalUrl ?d)), demo_state)"
    by blast
  then have d: "get_download demo_env ?d demo_state
          = (Redirect ''/login?next=%2Fdownload%3Fx%3D1'', demo_state)"
    unfolding u by simp
  from n a d show ?thesis by blast
qed

text \<open>
  C5 does not hold with the original URL written as it is: for \<open>/download\<close> the plain gate
  redirects to \<open>/login?next=%2Fdownload\<close>, not to \<open>/login?next=/download\<close>.
\<close>

theorem requireAuth_encodes_return_path:
  "user (session demo_state) = None
   \<and> requireAuth (demo_request GET ''/download'' []) demo_state
       = Some (Redirect ''/login?next=%2Fdownload'')
   \<and> requireAuth (demo_request GET ''/download'' []) demo_state
       \<noteq> Some (Redirect (''/login?next='' @ originalUrl (demo_request GET ''/download'' [])))"
  by (simp add: requireAuth_def demo_state_def demo_request_def uri_simps)

section \<open>The download\<close>








section \<open>The upload slots\<close>

lemma upload_image_result:
  assumes "requireAdmin req st = None"
  shows "post_admin_upload_image e req st =
     (case upload req of
        NoPart \<Rightarrow> (Redirect ''/admin'', setFlash FlashError NoFileReceived st)
      | BadMultipart m \<Rightarrow> (Redirect ''/admin'', setFlash FlashError (UploadFailure m) st)
      | FilePart f \<Rightarrow>
          if startsWith (mimetype f) ''image/''
          then (Redirect ''/admin'',
                setFlash FlashSuccess ImageUpdated
                  (st\<lparr>files := unlink_previous e ''/uploads/''
                          (fst (getSetting ''cheat_image_url'' DEFAULT_IMAGE_URL (settings (db st))))
                          (insert (path_join [UPLOADS_DIR e, imageStorage_filename (now req) f])
                             (files st)),
                      db := (db st)\<lparr>settings :=
                        setSetting ''cheat_image_url''
                          (''/uploads/'' @ imageStorage_filename (now req) f)
                          (settings (db st))\<rparr>\<rparr>))
          else (Redirect ''/admin'', setFlash FlashError OnlyImages st))"
proof -
  obtain v where g: "getSetting ''cheat_image_url'' DEFAULT_IMAGE_URL (settings (db st))
                      = (v, settings (db st))"
    using getSetting_pair by blast
  show ?thesis
    using assms
    by (simp add: post_admin_upload_image_def uploadImage_single_def imageFilter_def g Let_def
        split: upload_input.splits)
qed

lemma upload_zip_result:
  assumes "requireAdmin req st = None"
  shows "post_admin_upload_zip e req st =
     (case upload req of
        NoPart \<Rightarrow> (Redirect ''/admin'', setFlash FlashError NoArchiveReceived st)
      | BadMultipart m \<Rightarrow> (Redirect ''/admin'', setFlash FlashError (UploadFailure m) st)
      | FilePart f \<Rightarrow>
          if endsWith (toLowerCase (originalname f)) ''.zip''
          then (Redirect ''/admin'',
                setFlash FlashSuccess ZipUpdated
                  (st\<lparr>files := unlink_previous e ''downloads''
                          (fst (getSetting ''cheat_zip_path'' DEFAULT_ZIP_PATH (settings (db st))))
                          (insert (path_join [DOWNLOADS_DIR e, zipStorage_filename (now req) f])
                             (files st)),
                      db := (db st)\<lparr>settings :=
                        setSetting ''cheat_zip_path''
                          (path_join [''downloads'', zipStorage_filename (now req) f])
                          (settings (db st))\<rparr>\<rparr>))
          else (Redirect ''/admin'', setFlash FlashError NeedZip st))"
proof -
  obtain v where g: "getSetting ''cheat_zip_path'' DEFAULT_ZIP_PATH (settings (db st))
                      = (v, settings (db st))"
    using getSetting_pair by blast
  show ?thesis
    using assms
    by (simp add: post_admin_upload_zip_def uploadZip_single_def zipFilter_def g Let_def
        split: upload_input.splits)
qed

text \<open>
  C8. Behind the admin gate the two slots apply their allow-lists exactly. The image route
  refuses the upload (redirect to \<open>/admin\<close>, an error flash, database and files untouched)
  exactly when the request carries no acceptable file: no file part, a broken body, or a
  file whose MIME type does not start with \<open>image/\<close>; the archive route does so exactly
  when the file name, lower-cased, does not end with \<open>.zip\<close>. An accepted file gives the
  success flash and the setting of the slot then reads the new URL or path. A missing file
  and a file of the wrong kind have their own messages.
\<close>

theorem upload_allow_lists:
  assumes "requireAdmin req st = None"
  shows "(upload_refused (post_admin_upload_image e req st) st
            = (\<forall>f. upload req = FilePart f \<longrightarrow> \<not> startsWith (mimetype f) ''image/''))
       \<and> (upload_refused (post_admin_upload_zip e req st) st
            = (\<forall>f. upload req = FilePart f \<longrightarrow> \<not> endsWith (toLowerCase (originalname f)) ''.zip''))
       \<and> (\<forall>f. upload req = FilePart f \<and> startsWith (mimetype f) ''image/'' \<longrightarrow>
             fst (post_admin_upload_image e req st) = Redirect ''/admin''
             \<and> flash (session (snd (post_admin_upload_image e req st)))
                 = Some (FlashSuccess, ImageUpdated)
             \<and> fst (getSetting ''cheat_image_url'' DEFAULT_IMAGE_URL
                      (settings (db (snd (post_admin_upload_image e req st)))))
                 = ''/uploads/'' @ imageStorage_filename (now req) f)
       \<and> (\<forall>f. upload req = FilePart f \<and> endsWith (toLowerCase (originalname f)) ''.zip'' \<longrightarrow>
             fst (post_admin_upload_zip e req st) = Redirect ''/admin''
             \<and> flash (session (snd (post_admin_upload_zip e req st)))
                 = Some (FlashSuccess, ZipUpdated)
             \<and> fst (getSetting ''cheat_zip_path'' DEFAULT_ZIP_PATH
                      (settings (db (snd (post_admin_upload_zip e req st)))))
                 = path_join [''downloads'', zipStorage_filename (now req) f])
       \<and> (upload req = NoPart \<longrightarrow>
             flash (session (snd (post_admin_upload_image e req st)))
               = Some (FlashError, NoFileReceived)
             \<and> flash (session (snd (post_admin_upload_zip e req st)))
               = Some (FlashError, NoArchiveReceived))
       \<and> (\<forall>f. upload req = FilePart f \<longrightarrow>
             (\<not> startsWith (mimetype f) ''image/'' \<longrightarrow>
                flash (session (snd (post_admin_upload_image e req st)))
                  = Some (FlashError, OnlyImages))
             \<and> (\<not> endsWith (toLowerCase (originalname f)) ''.zip'' \<longrightarrow>
                flash (session (snd (post_admin_upload_zip e req st)))
                  = Some (FlashError, NeedZip)))"
proof -
  note i = upload_image_result [OF assms, of e]
  note z = upload_zip_result [OF assms, of e]
  have 1: "upload_refused (post_admin_upload_image e req st) st
            = (\<forall>f. upload req = FilePart f \<longrightarrow> \<not> startsWith (mimetype f) ''image/'')"
    by (cases "upload req") (simp_all add: i upload_refused_def setFlash_def)
  have 2: "upload_refused (post_admin_upload_zip e req st) st
            = (\<forall>f. upload req = FilePart f \<longrightarrow> \<not> endsWith (toLowerCase (originalname f)) ''.zip'')"
    by (cases "upload req") (simp_all add: z upload_refused_def setFlash_def)
  have 3: "\<forall>f. upload req = FilePart f \<and> startsWith (mimetype f) ''image/'' \<longrightarrow>
             fst (post_admin_upload_image e req st) = Redirect ''/admin''
             \<and> flash (session (snd (post_admin_upload_image e req st)))
                 = Some (FlashSuccess, ImageUpdated)
             \<and> fst (getSetting ''cheat_image_url'' DEFAULT_IMAGE_URL
                      (settings (db (snd (post_admin_upload_image e req st)))))
                 = ''/uploads/'' @ imageStorage_filename (now req) f"
    by (simp add: i setFlash_def getSetting_after_setSetting)
  have 4: "\<forall>f. upload req = FilePart f \<and> endsWith (toLowerCase (originalname f)) ''.zip'' \<longrightarrow>
             fst (post_admin_upload_zip e req st) = Redirect ''/admin''
             \<and> flash (session (snd (post_admin_upload_zip e req st)))
                 = Some (FlashSuccess, ZipUpdated)
             \<and> fst (getSetting ''cheat_zip_path'' DEFAULT_ZIP_PATH
                      (settings (db (snd (post_admin_upload_zip e req st)))))
                 = path_join [''downloads'', zipStorage_filename (now req) f]"
    by (simp add: z setFlash_def getSetting_after_setSetting)
  have 5: "upload req = NoPart \<longrightarrow>
             flash (session (snd (post_admin_upload_image e req st)))
               = Some (FlashError, NoFileReceived)
             \<and> flash (session (snd (post_admin_upload_zip e req st)))
               = Some (FlashError, NoArchiveReceived)"
    by (simp add: i z setFlash_def)
  have 6: "\<forall>f. upload req = FilePart f \<longrightarrow>
             (\<not> startsWith (mimetype f) ''image/'' \<longrightarrow>
                flash (session (snd (post_admin_upload_image e req st)))
                  = Some (FlashError, OnlyImages))
             \<and> (\<not> endsWith (toLowerCase (originalname f)) ''.zip'' \<longrightarrow>
                flash (session (snd (post_admin_upload_zip e req st)))
                  = Some (FlashError, NeedZip))"
    by (simp add: i z setFlash_def)
  from 1 2 3 4 5 6 show ?thesis by blast
qed

theorem upload_allow_lists_witness:
  "requireAdmin photo_upload fresh_state = None
   \<and> \<not> upload_refused (post_admin_upload_image demo_env photo_upload fresh_state) fresh_state
   \<and> upload_refused (post_admin_upload_zip demo_env photo_upload fresh_state) fresh_state
   \<and> fst (getSetting ''cheat_image_url'' DEFAULT_IMAGE_URL
           (settings (db (snd (post_admin_upload_image demo_env photo_upload fresh_state)))))
       = ''/uploads/cheat-2.PNG''
   \<and> flash (session (snd (post_admin_upload_zip demo_env photo_upload fresh_state)))
       = Some (FlashError, NeedZip)"
proof -
  have a: "requireAdmin photo_upload fresh_state = None"
    by (simp add: requireAdmin_def fresh_state_def admin_session_def)
  have u: "upload photo_upload
             = FilePart \<lparr>originalname = ''Photo.PNG'', mimetype = ''image/png''\<rparr>"
    by (simp add: photo_upload_def)
  have m: "startsWith (mimetype \<lparr>originalname = ''Photo.PNG'', mimetype = ''image/png''\<rparr>) ''image/''"
    by (simp add: startsWith_def)
  have z: "\<not> endsWith (toLowerCase (originalname \<lparr>originalname = ''Photo.PNG'', mimetype = ''image/png''\<rparr>)) ''.zip''"
    by (simp add: endsWith_def demo_simps)
  have n: "imageStorage_filename (now photo_upload)
             \<lparr>originalname = ''Photo.PNG'', mimetype = ''image/png''\<rparr> = ''cheat-2.PNG''"
    by (simp add: imageStorage_filename_def photo_upload_def digits.simps extname_def
        basename_def or_else_def)
  from upload_allow_lists [OF a, of demo_env] u m z n
  have "\<not> upload_refused (post_admin_upload_image demo_env photo_upload fresh_state) fresh_state
   \<and> upload_refused (post_admin_upload_zip demo_env photo_upload fresh_state) fresh_state
   \<and> fst (getSetting ''cheat_image_url'' DEFAULT_IMAGE_URL
           (settings (db (snd (post_admin_upload_image demo_env photo_upload fresh_state)))))
       = ''/uploads/cheat-2.PNG''
   \<and> flash (session (snd (post_admin_upload_zip demo_env photo_upload fresh_state)))
       = Some (FlashError, NeedZip)"
    by simp
  with a show ?thesis by blast
qed

section \<open>Replacing an asset\<close>

text \<open>
  What the two routes delete, in general: the archive route deletes the previous path
  resolved against the directory of the script; the image route deletes the previous URL
  read as a path of the file system.
\<close>

lemma startsWith_Cons:
  "startsWith s (c # p) = (case s of [] \<Rightarrow> False | d # r \<Rightarrow> d = c \<and> startsWith r p)"
  by (cases s) (simp_all add: startsWith_def)

lemma toAbsolutePath_upload_url:
  "startsWith prev ''/uploads/'' \<Longrightarrow> toAbsolutePath e prev = Some prev"
  by (cases prev) (simp_all add: startsWith_Cons toAbsolutePath_def isAbsolute_def)

lemma unlink_previous_image:
  "unlink_previous e ''/uploads/'' prev fs =
     (if startsWith prev ''/uploads/'' then fs - {prev} else fs)"
  by (cases prev) (auto simp: unlink_previous_def toAbsolutePath_upload_url startsWith_Cons)

lemma toAbsolutePath_download_path:
  "startsWith prev ''downloads'' \<Longrightarrow> toAbsolutePath e prev = Some (path_join [dirname e, prev])"
  by (cases prev)
     (simp_all add: startsWith_Cons toAbsolutePath_def isAbsolute_def strip_leading_separator_def)

lemma unlink_previous_zip:
  "unlink_previous e ''downloads'' prev fs =
     (if startsWith prev ''downloads'' then fs - {path_join [dirname e, prev]} else fs)"
  by (cases prev) (auto simp: unlink_previous_def toAbsolutePath_download_path startsWith_Cons)

lemma zip_upload_replaces_previous:
  assumes "requireAdmin req st = None" and "upload req = FilePart f"
    and "endsWith (toLowerCase (originalname f)) ''.zip''"
  shows "files (snd (post_admin_upload_zip e req st)) =
     (let prev = fst (getSetting ''cheat_zip_path'' DEFAULT_ZIP_PATH (settings (db st)));
          stored = insert (path_join [DOWNLOADS_DIR e, zipStorage_filename (now req) f]) (files st)
      in if startsWith prev ''downloads'' then stored - {path_join [dirname e, prev]} else stored)"
  using assms by (simp add: upload_zip_result unlink_previous_zip setFlash_def Let_def)

lemma image_upload_unlinks_url:
  assumes "requireAdmin req st = None" and "upload req = FilePart f"
    and "startsWith (mimetype f) ''image/''"
  shows "files (snd (post_admin_upload_image e req st)) =
     (let prev = fst (getSetting ''cheat_image_url'' DEFAULT_IMAGE_URL (settings (db st)));
          stored = insert (path_join [UPLOADS_DIR e, imageStorage_filename (now req) f]) (files st)
      in if startsWith prev ''/uploads/'' then stored - {prev} else stored)"
  using assms by (simp add: upload_image_result unlink_previous_image setFlash_def Let_def)

text \<open>
  C3 fails in the image slot. The installation holds the image \<open>/srv/app/uploads/cheat-1.png\<close>
  under the setting \<open>/uploads/cheat-1.png\<close>: a value with the prefix of the slot, and a file
  that exists in the directory of the slot. The upload of a new image is accepted and the
  setting moves to the new URL, but the previous file is still on disk afterwards: the
  route resolves the stored URL with \<open>toAbsolutePath\<close>, which returns a value with a leading
  slash as it is, and so looks for \<open>/uploads/cheat-1.png\<close> at the root of the file system.
\<close>

theorem image_upload_keeps_previous_file:
  "fst (getSetting ''cheat_image_url'' DEFAULT_IMAGE_URL (settings (db stocked_state)))
     = ''/uploads/cheat-1.png''
   \<and> path_join [UPLOADS_DIR demo_env, ''cheat-1.png''] = ''/srv/app/uploads/cheat-1.png''
   \<and> ''/srv/app/uploads/cheat-1.png'' \<in> files stocked_state
   \<and> fst (post_admin_upload_image demo_env photo_upload stocked_state) = Redirect ''/admin''
   \<and> flash (session (snd (post_admin_upload_image demo_env photo_upload stocked_state)))
       = Some (FlashSuccess, ImageUpdated)
   \<and> fst (getSetting ''cheat_image_url'' DEFAULT_IMAGE_URL
           (settings (db (snd (post_admin_upload_image demo_env photo_upload stocked_state)))))
       = ''/uploads/cheat-2.PNG''
   \<and> files (snd (post_admin_upload_image demo_env photo_upload stocked_state))
       = {''/srv/app/uploads/cheat-2.PNG'', ''/srv/app/uploads/cheat-1.png'',
          ''/srv/app/downloads/whitecore-1.zip''}"
proof -
  have a: "requireAdmin photo_upload stocked_state = None"
    by (simp add: requireAdmin_def stocked_state_def admin_session_def)
  have u: "upload photo_upload
             = FilePart \<lparr>originalname = ''Photo.PNG'', mimetype = ''image/png''\<rparr>"
    by (simp add: photo_upload_def)
  have m: "startsWith (mimetype \<lparr>originalname = ''Photo.PNG'', mimetype = ''image/png''\<rparr>) ''image/''"
    by (simp add: startsWith_def)
  have n: "imageStorage_filename (now photo_upload)
             \<lparr>originalname = ''Photo.PNG'', mimetype = ''image/png''\<rparr> = ''cheat-2.PNG''"
    by (simp add: imageStorage_filename_def photo_upload_def digits.simps extname_def
        basename_def or_else_def)
  have p: "fst (getSetting ''cheat_image_url'' DEFAULT_IMAGE_URL (settings (db stocked_state)))
     = ''/uploads/cheat-1.png''"
    by (simp add: stocked_state_def getSetting_def select_setting_def)
  have d: "path_join [UPLOADS_DIR demo_env, ''cheat-1.png''] = ''/srv/app/uploads/cheat-1.png''"
          "path_join [UPLOADS_DIR demo_env, ''cheat-2.PNG''] = ''/srv/app/uploads/cheat-2.PNG''"
    by (simp_all add: UPLOADS_DIR_def demo_env_def path_simps)
  have f: "files (snd (post_admin_upload_image demo_env photo_upload stocked_state))
       = {''/srv/app/uploads/cheat-2.PNG'', ''/srv/app/uploads/cheat-1.png'',
          ''/srv/app/downloads/whitecore-1.zip''}"
    unfolding image_upload_unlinks_url [OF a u m] n p d
    by (simp add: startsWith_def stocked_state_def Let_def insert_commute)
  have r: "fst (post_admin_upload_image demo_env photo_upload stocked_state) = Redirect ''/admin''
   \<and> flash (session (snd (post_admin_upload_image demo_env photo_upload stocked_state)))
       = Some (FlashSuccess, ImageUpdated)
   \<and> fst (getSetting ''cheat_image_url'' DEFAULT_IMAGE_URL
           (settings (db (snd (post_admin_upload_image demo_env photo_upload stocked_state)))))
       = ''/uploads/cheat-2.PNG''"
    using m n by (simp add: upload_image_result [OF a] u setFlash_def getSetting_after_setSetting)
  have i: "''/srv/app/uploads/cheat-1.png'' \<in> files stocked_state"
    by (simp add: stocked_state_def)
  from p d(1) i r f show ?thesis by blast
qed

text \<open>
  The archive slot, on the same installation, does what the image slot misses: the previous
  archive is gone after the upload.
\<close>

lemma archive_upload_deletes_previous_file:
  "files (snd (post_admin_upload_zip demo_env archive_upload stocked_state))
     = {''/srv/app/downloads/whitecore-2.zip'', ''/srv/app/uploads/cheat-1.png''}"
proof -
  have a: "requireAdmin archive_upload stocked_state = None"
    by (simp add: requireAdmin_def stocked_state_def admin_session_def)
  have u: "upload archive_upload
             = FilePart \<lparr>originalname = ''client.zip'', mimetype = ''application/zip''\<rparr>"
    by (simp add: archive_upload_def)
  have m: "endsWith (toLowerCase (originalname
             \<lparr>originalname = ''client.zip'', mimetype = ''application/zip''\<rparr>)) ''.zip''"
    by (simp add: endsWith_def demo_simps)
  have n: "zipStorage_filename (now archive_upload)
             \<lparr>originalname = ''client.zip'', mimetype = ''application/zip''\<rparr> = ''whitecore-2.zip''"
    by (simp add: zipStorage_filename_def archive_upload_def digits.simps extname_def
        basename_def or_else_def)
  have p: "fst (getSetting ''cheat_zip_path'' DEFAULT_ZIP_PATH (settings (db stocked_state)))
     = ''downloads/whitecore-1.zip''"
    by (simp add: stocked_state_def getSetting_def select_setting_def)
  have d: "path_join [DOWNLOADS_DIR demo_env, ''whitecore-2.zip''] = ''/srv/app/downloads/whitecore-2.zip''"
          "path_join [dirname demo_env, ''downloads/whitecore-1.zip''] = ''/srv/app/downloads/whitecore-1.zip''"
    by (simp_all add: DOWNLOADS_DIR_def demo_env_def path_simps)
  show ?thesis
    unfolding zip_upload_replaces_previous [OF a u m] n p Let_def d
    by (auto simp: startsWith_def stocked_state_def)
qed

section \<open>The bot and the web login\<close>

lemma bot_step_frame:
  "session (snd (bot_step e ev st)) = session st
   \<and> db (snd (bot_step e ev st)) = db st
   \<and> files (snd (bot_step e ev st)) = files st"
proof (cases ev)
  case (BotDownload chat)
  obtain v where g: "getSetting ''cheat_zip_path'' DEFAULT_ZIP_PATH (settings (db st))
                      = (v, settings (db st))"
    using getSetting_pair by blast
  show ?thesis
    by (simp add: BotDownload bot_download_def g existsSync_def split: option.splits)
qed (simp_all add: bot_start_def bot_login_def bot_logout_def Let_def split: option.splits)

lemma bot_step_session_independent:
  "fst (bot_step e ev (st\<lparr>session := s\<rparr>)) = fst (bot_step e ev st)
   \<and> sessions (snd (bot_step e ev (st\<lparr>session := s\<rparr>))) = sessions (snd (bot_step e ev st))"
proof (cases ev)
  case (BotDownload chat)
  obtain v where g: "getSetting ''cheat_zip_path'' DEFAULT_ZIP_PATH (settings (db st))
                      = (v, settings (db st))"
    using getSetting_pair by blast
  show ?thesis
    by (simp add: BotDownload bot_download_def g existsSync_def split: option.splits)
qed (simp_all add: bot_start_def bot_login_def bot_logout_def Let_def split: option.splits)

lemma bot_step_sessions:
  "sessions (snd (bot_step e ev st)) =
     (case ev of
        BotLogin chat credentials \<Rightarrow>
          if bot_login_succeeds e credentials (db st)
          then (sessions st)(chat := loginWithCredentials e (credentials_username credentials)
                                       (credentials_password credentials) (db st))
          else sessions st
      | BotLogout chat \<Rightarrow> (sessions st)(chat := None)
      | _ \<Rightarrow> sessions st)"
proof (cases ev)
  case (BotDownload chat)
  obtain v where g: "getSetting ''cheat_zip_path'' DEFAULT_ZIP_PATH (settings (db st))
                      = (v, settings (db st))"
    using getSetting_pair by blast
  show ?thesis
    by (simp add: BotDownload bot_download_def g existsSync_def split: option.splits)
qed (auto simp: bot_start_def bot_login_def bot_logout_def bot_login_succeeds_def Let_def
       split: option.splits)

lemma bot_run_append: "bot_run e (xs @ ys) st = bot_run e ys (bot_run e xs st)"
  by (induction xs arbitrary: st) simp_all

lemma bot_run_db: "db (bot_run e evs st) = db st"
  by (induction evs arbitrary: st) (simp_all add: bot_step_frame)

lemma entry_comes_from_login:
  "sessions st chat = None \<Longrightarrow> sessions (bot_run e evs st) chat \<noteq> None \<Longrightarrow>
     \<exists>pre credentials post. evs = pre @ BotLogin chat credentials # post
        \<and> bot_login_succeeds e credentials (db st) \<and> BotLogout chat \<notin> set post"
proof (induction evs rule: rev_induct)
  case Nil
  then show ?case by simp
next
  case (snoc x xs)
  let ?s = "bot_run e xs st"
  have step: "sessions (bot_run e (xs @ [x]) st) = sessions (snd (bot_step e x ?s))"
    by (simp add: bot_run_append)
  have d: "db ?s = db st" by (rule bot_run_db)
  show ?case
  proof (cases "\<exists>c. x = BotLogin chat c \<and> bot_login_succeeds e c (db st)")
    case True
    then obtain c where "x = BotLogin chat c" "bot_login_succeeds e c (db st)" by blast
    then have "xs @ [x] = xs @ BotLogin chat c # [] \<and> bot_login_succeeds e c (db st)
                 \<and> BotLogout chat \<notin> set []"
      by simp
    then show ?thesis by blast
  next
    case False
    have notout: "x \<noteq> BotLogout chat"
      using snoc.prems(2) by (auto simp: step bot_step_sessions)
    have "sessions (snd (bot_step e x ?s)) chat = sessions ?s chat"
      using False notout by (auto simp: bot_step_sessions d split: bot_event.splits)
    with snoc.prems(2) have "sessions ?s chat \<noteq> None" by (simp add: step)
    with snoc.IH snoc.prems(1) obtain pre c post where
      "xs = pre @ BotLogin chat c # post" "bot_login_succeeds e c (db st)"
      "BotLogout chat \<notin> set post"
      by blast
    with notout have "xs @ [x] = pre @ BotLogin chat c # (post @ [x])
        \<and> bot_login_succeeds e c (db st) \<and> BotLogout chat \<notin> set (post @ [x])"
      by simp
    then show ?thesis by blast
  qed
qed

lemma bot_download_needs_entry:
  "sessions st chat = None \<Longrightarrow> bot_download e chat st = (SendMessage chat LoginFirst, st)"
  by (simp add: bot_download_def)

lemma web_bot_same_check:
  assumes "\<not> captcha_fails (captcha (session st)) (field (body req) ''captcha'' [])"
  shows "case loginWithCredentials e (field (body req) ''username'' [])
                (field (body req) ''password'' []) (db st) of
           None \<Rightarrow> fst (post_login e req st) = Redirect ''/login''
                   \<and> (flash (session (snd (post_login e req st))) = Some (FlashError, UserNotFound)
                      \<or> flash (session (snd (post_login e req st))) = Some (FlashError, WrongPassword))
                   \<and> user (session (snd (post_login e req st))) = user (session st)
         | Some b \<Rightarrow> flash (session (snd (post_login e req st))) = Some (FlashSuccess, LoggedIn)
                   \<and> (\<exists>su. user (session (snd (post_login e req st))) = Some su \<and> b = bot_view su)"
  using assms
  by (simp add: loginWithCredentials_def post_login_def Let_def setFlash_def bot_view_def
      split: option.splits)

text \<open>
  C9. The check of the bot is the check of the web login without the captcha: on a login
  that passes the captcha check, \<open>loginWithCredentials\<close> on the same identifier and password
  returns nothing exactly when the web login refuses (user not found or wrong password),
  and otherwise returns the user whose snapshot the web login puts into the session; the
  steps of the bot never look at the session of the browser. \<open>/download\<close> of a chat without
  an entry in the map answers "log in first". An entry that appears for a chat was put
  there by a successful \<open>/login\<close> of that chat with no \<open>/logout\<close> of that chat after it;
  \<open>/logout\<close> removes the entry and a successful \<open>/login\<close> stores the user. The map and
  the session of the browser are apart: no request changes the map, no step of the bot
  changes the session, and what a step of the bot does is the same for every session.
\<close>

theorem bot_check_and_session_map:
  "(\<not> captcha_fails (captcha (session st)) (field (body req) ''captcha'' []) \<longrightarrow>
      (case loginWithCredentials e (field (body req) ''username'' [])
                (field (body req) ''password'' []) (db st) of
           None \<Rightarrow> fst (post_login e req st) = Redirect ''/login''
                   \<and> (flash (session (snd (post_login e req st))) = Some (FlashError, UserNotFound)
                      \<or> flash (session (snd (post_login e req st))) = Some (FlashError, WrongPassword))
                   \<and> user (session (snd (post_login e req st))) = user (session st)
         | Some b \<Rightarrow> flash (session (snd (post_login e req st))) = Some (FlashSuccess, LoggedIn)
                   \<and> (\<exists>su. user (session (snd (post_login e req st))) = Some su \<and> b = bot_view su)))
   \<and> (sessions st chat = None \<longrightarrow> bot_download e chat st = (SendMessage chat LoginFirst, st))
   \<and> (sessions st chat = None \<and> sessions (bot_run e evs st) chat \<noteq> None \<longrightarrow>
        (\<exists>pre credentials post. evs = pre @ BotLogin chat credentials # post
           \<and> bot_login_succeeds e credentials (db st) \<and> BotLogout chat \<notin> set post))
   \<and> sessions (snd (bot_step e (BotLogout chat) st)) chat = None
   \<and> (bot_login_succeeds e cr (db st) \<longrightarrow>
        sessions (snd (bot_step e (BotLogin chat cr) st)) chat
          = loginWithCredentials e (credentials_username cr) (credentials_password cr) (db st))
   \<and> sessions (snd (app e req st)) = sessions st
   \<and> session (snd (bot_step e ev st)) = session st
   \<and> fst (bot_step e ev (st\<lparr>session := s\<rparr>)) = fst (bot_step e ev st)
   \<and> sessions (snd (bot_step e ev (st\<lparr>session := s\<rparr>))) = sessions (snd (bot_step e ev st))"
proof (intro conjI impI)
  assume "\<not> captcha_fails (captcha (session st)) (field (body req) ''captcha'' [])"
  then show "case loginWithCredentials e (field (body req) ''username'' [])
                (field (body req) ''password'' []) (db st) of
           None \<Rightarrow> fst (post_login e req st) = Redirect ''/login''
                   \<and> (flash (session (snd (post_login e req st))) = Some (FlashError, UserNotFound)
                      \<or> flash (session (snd (post_login e req st))) = Some (FlashError, WrongPassword))
                   \<and> user (session (snd (post_login e req st))) = user (session st)
         | Some b \<Rightarrow> flash (session (snd (post_login e req st))) = Some (FlashSuccess, LoggedIn)
                   \<and> (\<exists>su. user (session (snd (post_login e req st))) = Some su \<and> b = bot_view su)"
    by (rule web_bot_same_check)
next
  assume "sessions st chat = None"
  then show "bot_download e chat st = (SendMessage chat LoginFirst, st)"
    by (rule bot_download_needs_entry)
next
  assume "sessions st chat = None \<and> sessions (bot_run e evs st) chat \<noteq> None"
  then show "\<exists>pre credentials post. evs = pre @ BotLogin chat credentials # post
           \<and> bot_login_succeeds e credentials (db st) \<and> BotLogout chat \<notin> set post"
    using entry_comes_from_login by blast
next
  show "sessions (snd (bot_step e (BotLogout chat) st)) chat = None"
    by (simp add: bot_logout_def)
next
  assume "bot_login_succeeds e cr (db st)"
  then show "sessions (snd (bot_step e (BotLogin chat cr) st)) chat
          = loginWithCredentials e (credentials_username cr) (credentials_password cr) (db st)"
    using bot_step_sessions [of e "BotLogin chat cr" st] by simp
next
  show "sessions (snd (app e req st)) = sessions st" by (rule app_sessions)
  show "session (snd (bot_step e ev st)) = session st" by (simp add: bot_step_frame)
  show "fst (bot_step e ev (st\<lparr>session := s\<rparr>)) = fst (bot_step e ev st)"
    by (simp add: bot_step_session_independent)
  show "sessions (snd (bot_step e ev (st\<lparr>session := s\<rparr>))) = sessions (snd (bot_step e ev st))"
    by (simp add: bot_step_session_independent)
qed

theorem bot_check_and_session_map_witness:
  "\<not> captcha_fails (captcha (session demo_state))
       (field (body (demo_request POST ''/login''
          [(''username'', ''bob''), (''password'', ''secret''), (''captcha'', ''x7k2p'')]))
          ''captcha'' [])
   \<and> loginWithCredentials demo_env ''bob'' ''secret'' (db demo_state) = Some (bot_view bob_session)
   \<and> (\<exists>su. user (session (snd (post_login demo_env
          (demo_request POST ''/login''
             [(''username'', ''bob''), (''password'', ''secret''), (''captcha'', ''x7k2p'')])
          demo_state))) = Some su \<and> bot_view bob_session = bot_view su)
   \<and> sessions demo_state 7 = None
   \<and> bot_download demo_env 7 demo_state = (SendMessage 7 LoginFirst, demo_state)
   \<and> bot_login_succeeds demo_env ''bob  secret'' (db demo_state)
   \<and> sessions (snd (bot_step demo_env (BotLogin 7 ''bob  secret'') demo_state)) 7
       = Some (bot_view bob_session)"
proof -
  let ?r = "demo_request POST ''/login''
             [(''username'', ''bob''), (''password'', ''secret''), (''captcha'', ''x7k2p'')]"
  have c: "\<not> captcha_fails (captcha (session demo_state)) (field (body ?r) ''captcha'' [])"
    by (simp add: captcha_fails_def demo_simps)
  have f: "field (body ?r) ''username'' [] = ''bob''" "field (body ?r) ''password'' [] = ''secret''"
    by (simp_all add: demo_simps)
  have l: "loginWithCredentials demo_env ''bob'' ''secret'' (db demo_state)
             = Some (bot_view bob_session)"
    by (simp add: loginWithCredentials_def select_user_by_login_def bot_view_def bob_session_def
        demo_simps)
  have n: "sessions demo_state 7 = None" by (simp add: demo_state_def)
  have p: "credentials_username ''bob  secret'' = ''bob''"
          "credentials_password ''bob  secret'' = ''secret''"
    by (simp_all add: credentials_username_def credentials_password_def split_ws_def is_space_def)
  have b: "bot_login_succeeds demo_env ''bob  secret'' (db demo_state)"
    by (simp add: bot_login_succeeds_def p l)
  note t = bot_check_and_session_map
             [of demo_state ?r demo_env 7 "[]" "''bob  secret''" "BotStart 7" "session demo_state"]
  from t c have "case loginWithCredentials demo_env (field (body ?r) ''username'' [])
                (field (body ?r) ''password'' []) (db demo_state) of
           None \<Rightarrow> fst (post_login demo_env ?r demo_state) = Redirect ''/login''
                   \<and> (flash (session (snd (post_login demo_env ?r demo_state)))
                        = Some (FlashError, UserNotFound)
                      \<or> flash (session (snd (post_login demo_env ?r demo_state)))
                        = Some (FlashError, WrongPassword))
                   \<and> user (session (snd (post_login demo_env ?r demo_state)))
                        = user (session demo_state)
         | Some b \<Rightarrow> flash (session (snd (post_login demo_env ?r demo_state)))
                        = Some (FlashSuccess, LoggedIn)
                   \<and> (\<exists>su. user (session (snd (post_login demo_env ?r demo_state))) = Some su
                         \<and> b = bot_view su)"
    by blast
  then have w: "\<exists>su. user (session (snd (post_login demo_env ?r demo_state))) = Some su
                  \<and> bot_view bob_session = bot_view su"
    unfolding f l by simp
  from t n have d: "bot_download demo_env 7 demo_state = (SendMessage 7 LoginFirst, demo_state)"
    by blast
  from t b have s: "sessions (snd (bot_step demo_env (BotLogin 7 ''bob  secret'') demo_state)) 7
       = Some (bot_view bob_session)"
    unfolding p l by blast
  from c l w n d b s show ?thesis by blast
qed

end
